theory Spec2Isabelle
  imports Main
begin

section \<open>Values, exceptions and the external collaborators\<close>

text \<open>
  The program is one Python module, \<^verbatim>\<open>main.py\<close>: a credential manager
  (\<^verbatim>\<open>get_drive\<close>) and nine tools that each obtain a service handle and issue
  requests against the storage service. Everything the module does is an effect, so the
  model is an exception-and-state monad over an explicit world:
  \<^item> an exception (any instance of Python's \<^verbatim>\<open>Exception\<close>) is a value
    \<open>Exn cls msg\<close>; \<open>str\<close> is Python's \<^verbatim>\<open>str(e)\<close>;
  \<^item> the identity provider, the storage service, the chunked media download and whether
    a local path can be opened for writing or for reading are parameters (the record
    \<open>env\<close>): the module calls them, it does not implement them;
  \<^item> the local filesystem and the chronological list of effects (\<open>trace\<close>) are the
    mutable state (the record \<open>world\<close>).
\<close>

datatype exn = Exn string string

fun str :: "exn \<Rightarrow> string" where
  "str (Exn cls msg) = msg"

datatype pyval =
    PNone
  | PBool bool
  | PInt int
  | PStr string
  | PList "pyval list"
  | PDict "(string \<times> pyval) list"
  | PMedia string bool

type_synonym pydict = "(string \<times> pyval) list"

text \<open>
  A credential is the object of the identity-provider library. The module reads three of
  its attributes, \<^verbatim>\<open>valid\<close>, \<^verbatim>\<open>expired\<close> and \<^verbatim>\<open>refresh_token\<close>; they are fields
  here, holding the values the attributes have while the invocation runs (the progress of
  the wall clock during one invocation is not modelled).
\<close>

record creds =
  token :: string
  refresh_token :: "string option"
  valid :: bool
  expired :: bool

datatype fcontent = Data string | Pickled creds

text \<open>
  \<^verbatim>\<open>build("drive", "v3", credentials=creds)\<close>: the handle keeps its credential. Building
  it is taken as a local construction that does not fail.
\<close>

datatype handle = Service string string creds

fun handle_creds :: "handle \<Rightarrow> creds" where
  "handle_creds (Service name version c) = c"

text \<open>A request is the API method and its keyword arguments, in the order written.\<close>

datatype request = Request string "(string \<times> pyval) list"

text \<open>
  The chunks a \<^verbatim>\<open>MediaIoBaseDownload\<close> delivers for one file: each chunk carries its
  bytes and the percentage \<^verbatim>\<open>int(status.progress() * 100)\<close>; the sequence ends with the
  chunk reported as done, or with the exception of the fetch that failed. A remote file is
  finite, so the sequence is.
\<close>

datatype chunks =
    Last string nat
  | More string nat chunks
  | Failed exn

datatype event =
    Print string
  | Refresh creds "exn + creds"
  | Flow string "string list" "exn + creds"
  | OpenWb string "exn option"
  | Execute handle request "exn + pydict"
  | NextChunk "exn + string \<times> nat \<times> bool"

record env =
  script_dir :: string
  refresh :: "creds \<Rightarrow> exn + creds"
  oauth_flow :: "string \<Rightarrow> string list \<Rightarrow> exn + creds"
  api :: "handle \<Rightarrow> request \<Rightarrow> exn + pydict"
  media :: "handle \<Rightarrow> string \<Rightarrow> chunks"
  unwritable :: "string \<Rightarrow> exn option"
  unreadable :: "string \<Rightarrow> exn option"

record world =
  fs :: "string \<rightharpoonup> fcontent"
  trace :: "event list"

type_synonym 'a io = "world \<Rightarrow> (exn + 'a) \<times> world"

text \<open>The exception raised by an effect, if it failed; and which effects leave the machine.\<close>

fun failure :: "event \<Rightarrow> exn option" where
  "failure (Print s) = None"
| "failure (Refresh c r) = (case r of Inl e \<Rightarrow> Some e | Inr c' \<Rightarrow> None)"
| "failure (Flow cf scopes r) = (case r of Inl e \<Rightarrow> Some e | Inr c' \<Rightarrow> None)"
| "failure (OpenWb p r) = r"
| "failure (Execute h req r) = (case r of Inl e \<Rightarrow> Some e | Inr d \<Rightarrow> None)"
| "failure (NextChunk r) = (case r of Inl e \<Rightarrow> Some e | Inr x \<Rightarrow> None)"

fun is_print :: "event \<Rightarrow> bool" where
  "is_print (Print s) = True"
| "is_print ev = False"

fun remote :: "event \<Rightarrow> bool" where
  "remote (Refresh c r) = True"
| "remote (Flow cf scopes r) = True"
| "remote (Execute h req r) = True"
| "remote (NextChunk r) = True"
| "remote ev = False"

section \<open>The monad: sequencing, raising, try/except\<close>

definition ret :: "'a \<Rightarrow> 'a io" where
  "ret a w = (Inr a, w)"

definition raise :: "exn \<Rightarrow> 'a io" where
  "raise e w = (Inl e, w)"

definition bind :: "'a io \<Rightarrow> ('a \<Rightarrow> 'b io) \<Rightarrow> 'b io" where
  "bind m f w = (case m w of (Inl e, w') \<Rightarrow> (Inl e, w') | (Inr a, w') \<Rightarrow> f a w')"

text \<open>A pure operation that returns or raises.\<close>

definition lift :: "exn + 'a \<Rightarrow> 'a io" where
  "lift r w = (r, w)"

definition emit :: "event \<Rightarrow> unit io" where
  "emit ev w = (Inr (), w\<lparr>trace := trace w @ [ev]\<rparr>)"

text \<open>\<^verbatim>\<open>print(s, file=sys.stderr)\<close>\<close>

definition print :: "string \<Rightarrow> unit io" where
  "print s = emit (Print s)"

text \<open>
  Every function of the module has the same frame:
  \<^verbatim>\<open>
  try:
      body
  except Exception as e:
      print(f"ERROR in name: {str(e)}", file=sys.stderr)
      raise
  \<close>
\<close>

definition try_log :: "string \<Rightarrow> 'a io \<Rightarrow> 'a io" where
  "try_log name body w =
     (case body w of
        (Inl e, w') \<Rightarrow>
          (Inl e, w'\<lparr>trace := trace w' @ [Print (''ERROR in '' @ name @ '': '' @ str e)]\<rparr>)
      | (Inr a, w') \<Rightarrow> (Inr a, w'))"

section \<open>Library functions the module calls\<close>

text \<open>\<^verbatim>\<open>os.path.join(a, b)\<close> and \<^verbatim>\<open>os.path.basename(p)\<close>, as \<^verbatim>\<open>posixpath\<close> has them.\<close>

definition os_path_join :: "string \<Rightarrow> string \<Rightarrow> string" where
  "os_path_join a b =
     (if b \<noteq> [] \<and> hd b = CHR ''/'' then b
      else if a = [] \<or> last a = CHR ''/'' then a @ b
      else a @ ''/'' @ b)"

definition os_path_basename :: "string \<Rightarrow> string" where
  "os_path_basename p = rev (takeWhile (\<lambda>c. c \<noteq> CHR ''/'') (rev p))"

definition os_path_exists :: "string \<Rightarrow> bool io" where
  "os_path_exists p w = (Inr (fs w p \<noteq> None), w)"

text \<open>\<^verbatim>\<open>str(n)\<close> for a natural number.\<close>

fun str_nat :: "nat \<Rightarrow> string" where
  "str_nat n =
     (if n < 10 then [''0123456789'' ! n]
      else str_nat (n div 10) @ [''0123456789'' ! (n mod 10)])"

declare str_nat.simps [simp del]

text \<open>\<^verbatim>\<open>d.get(k, default)\<close> on a dictionary.\<close>

definition dict_get :: "pydict \<Rightarrow> string \<Rightarrow> pyval \<Rightarrow> pyval" where
  "dict_get d k dflt = (case map_of d k of None \<Rightarrow> dflt | Some v \<Rightarrow> v)"

text \<open>\<^verbatim>\<open>len(v)\<close>: defined on strings, lists and dictionaries, a TypeError elsewhere.\<close>

fun py_len :: "pyval \<Rightarrow> exn + nat" where
  "py_len (PStr s) = Inr (length s)"
| "py_len (PList xs) = Inr (length xs)"
| "py_len (PDict kvs) = Inr (length kvs)"
| "py_len v = Inl (Exn ''TypeError'' ''object has no len()'')"

text \<open>
  \<^verbatim>\<open>sep.join(v)\<close>: \<open>v\<close> is iterated (a list by its items, a string by its characters,
  a dictionary by its keys) and every item has to be a string.
\<close>

fun join :: "string \<Rightarrow> string list \<Rightarrow> string" where
  "join sep [] = []"
| "join sep [x] = x"
| "join sep (x # y # ys) = x @ sep @ join sep (y # ys)"

fun the_strs :: "pyval list \<Rightarrow> string list option" where
  "the_strs [] = Some []"
| "the_strs (PStr s # vs) = (case the_strs vs of None \<Rightarrow> None | Some ss \<Rightarrow> Some (s # ss))"
| "the_strs (v # vs) = None"

fun py_join :: "string \<Rightarrow> pyval \<Rightarrow> exn + string" where
  "py_join sep (PList vs) =
     (case the_strs vs of
        None \<Rightarrow> Inl (Exn ''TypeError'' ''sequence item: expected str instance'')
      | Some ss \<Rightarrow> Inr (join sep ss))"
| "py_join sep (PStr s) = Inr (join sep (map (\<lambda>c. [c]) s))"
| "py_join sep (PDict kvs) = Inr (join sep (map fst kvs))"
| "py_join sep v = Inl (Exn ''TypeError'' ''can only join an iterable'')"

text \<open>Truthiness of an optional string: \<^verbatim>\<open>None\<close> and \<^verbatim>\<open>""\<close> are false.\<close>

fun truthy :: "string option \<Rightarrow> bool" where
  "truthy None = False"
| "truthy (Some s) = (s \<noteq> [])"

text \<open>
  \<^verbatim>\<open>with open(p, "rb") as f: pickle.load(f)\<close>. A file that holds no pickled credential
  does not load.
\<close>

definition pickle_load :: "string \<Rightarrow> creds io" where
  "pickle_load p w =
     (case fs w p of
        None \<Rightarrow> (Inl (Exn ''FileNotFoundError'' (''No such file or directory: '' @ p)), w)
      | Some (Data d) \<Rightarrow> (Inl (Exn ''UnpicklingError'' ''could not load the pickle''), w)
      | Some (Pickled c) \<Rightarrow> (Inr c, w))"

text \<open>Opening a path with mode \<^verbatim>\<open>"wb"\<close> creates or truncates the file, or fails.\<close>

definition open_wb :: "env \<Rightarrow> string \<Rightarrow> unit io" where
  "open_wb E p w =
     (case unwritable E p of
        Some e \<Rightarrow> (Inl e, w\<lparr>trace := trace w @ [OpenWb p (Some e)]\<rparr>)
      | None \<Rightarrow> (Inr (), w\<lparr>fs := (fs w)(p \<mapsto> Data []), trace := trace w @ [OpenWb p None]\<rparr>))"

definition file_put :: "string \<Rightarrow> fcontent \<Rightarrow> unit io" where
  "file_put p c w = (Inr (), w\<lparr>fs := (fs w)(p \<mapsto> c)\<rparr>)"

text \<open>\<^verbatim>\<open>with open(p, "wb") as f: pickle.dump(c, f)\<close>\<close>

definition pickle_dump :: "env \<Rightarrow> string \<Rightarrow> creds \<Rightarrow> unit io" where
  "pickle_dump E p c = bind (open_wb E p) (\<lambda>_. file_put p (Pickled c))"

text \<open>\<^verbatim>\<open>fh.write(data)\<close> on a file opened at \<open>p\<close>: the bytes are appended.\<close>

definition file_append :: "string \<Rightarrow> string \<Rightarrow> unit io" where
  "file_append p d w =
     (Inr (), w\<lparr>fs := (fs w)(p \<mapsto> Data ((case fs w p of Some (Data old) \<Rightarrow> old | _ \<Rightarrow> []) @ d))\<rparr>)"

text \<open>
  \<^verbatim>\<open>MediaFileUpload(p, resumable=r)\<close> opens the file at \<open>p\<close> for reading, which can
  fail though the path exists.
\<close>

definition media_file_upload :: "env \<Rightarrow> string \<Rightarrow> bool \<Rightarrow> exn + pyval" where
  "media_file_upload E p resumable =
     (case unreadable E p of Some e \<Rightarrow> Inl e | None \<Rightarrow> Inr (PMedia p resumable))"

text \<open>\<^verbatim>\<open>creds.refresh(Request())\<close>: one call to the identity provider.\<close>

definition creds_refresh :: "env \<Rightarrow> creds \<Rightarrow> creds io" where
  "creds_refresh E c w = (refresh E c, w\<lparr>trace := trace w @ [Refresh c (refresh E c)]\<rparr>)"

text \<open>
  \<^verbatim>\<open>InstalledAppFlow.from_client_secrets_file(cf, scopes).run_local_server(port=0)\<close>:
  the interactive authorization.
\<close>

definition run_flow :: "env \<Rightarrow> string \<Rightarrow> string list \<Rightarrow> creds io" where
  "run_flow E cf scopes w =
     (oauth_flow E cf scopes, w\<lparr>trace := trace w @ [Flow cf scopes (oauth_flow E cf scopes)]\<rparr>)"

definition build :: "string \<Rightarrow> string \<Rightarrow> creds \<Rightarrow> handle io" where
  "build name version c = ret (Service name version c)"

text \<open>\<^verbatim>\<open>request.execute()\<close>: one call to the storage service.\<close>

definition execute :: "env \<Rightarrow> handle \<Rightarrow> request \<Rightarrow> pydict io" where
  "execute E h req w = (api E h req, w\<lparr>trace := trace w @ [Execute h req (api E h req)]\<rparr>)"

section \<open>The credential manager\<close>

definition SCOPES :: "string list" where
  "SCOPES = [''https://www.googleapis.com/auth/drive'',
             ''https://www.googleapis.com/auth/drive.file'']"

definition CREDENTIALS_FILE :: "env \<Rightarrow> string" where
  "CREDENTIALS_FILE E = os_path_join (script_dir E) ''credentials.json''"

definition TOKEN_FILE :: "env \<Rightarrow> string" where
  "TOKEN_FILE E = os_path_join (script_dir E) ''token.pickle''"

definition load_token :: "env \<Rightarrow> creds option io" where
  "load_token E =
     bind (os_path_exists (TOKEN_FILE E)) (\<lambda>present.
     if present then
       bind (print ''Loading existing token...'') (\<lambda>_.
       bind (pickle_load (TOKEN_FILE E)) (\<lambda>c.
       ret (Some c)))
     else ret None)"

text \<open>
  \<^verbatim>\<open>not creds or not creds.valid\<close>, and
  \<^verbatim>\<open>creds and creds.expired and creds.refresh_token\<close>.
\<close>

definition needs_login :: "creds option \<Rightarrow> bool" where
  "needs_login creds = (case creds of None \<Rightarrow> True | Some c \<Rightarrow> \<not> valid c)"

definition has_refresh :: "creds option \<Rightarrow> bool" where
  "has_refresh creds =
     (case creds of None \<Rightarrow> False | Some c \<Rightarrow> expired c \<and> truthy (refresh_token c))"

definition login :: "env \<Rightarrow> creds option \<Rightarrow> creds io" where
  "login E creds =
     bind (if has_refresh creds then
             bind (print ''Refreshing expired token...'') (\<lambda>_.
             creds_refresh E (the creds))
           else
             bind (print ''Starting OAuth flow...'') (\<lambda>_.
             bind (run_flow E (CREDENTIALS_FILE E) SCOPES) (\<lambda>c.
             bind (print ''OAuth flow completed'') (\<lambda>_.
             ret c)))) (\<lambda>c.
     bind (print ''Saving token...'') (\<lambda>_.
     bind (pickle_dump E (TOKEN_FILE E) c) (\<lambda>_.
     ret c)))"

definition get_drive :: "env \<Rightarrow> handle io" where
  "get_drive E = try_log ''get_drive''
     (bind (print ''Starting authentication process...'') (\<lambda>_.
      bind (os_path_exists (CREDENTIALS_FILE E)) (\<lambda>present.
      bind (if \<not> present then
              bind (print (''ERROR: credentials.json not found at '' @ CREDENTIALS_FILE E @ ''!'')) (\<lambda>_.
              raise (Exn ''FileNotFoundError'' (''credentials.json not found at '' @ CREDENTIALS_FILE E)))
            else ret ()) (\<lambda>_.
      bind (print (''credentials.json found at '' @ CREDENTIALS_FILE E)) (\<lambda>_.
      bind (load_token E) (\<lambda>creds.
      bind (if needs_login creds then login E creds else ret (the creds)) (\<lambda>c.
      bind (print ''Building Drive service...'') (\<lambda>_.
      bind (build ''drive'' ''v3'' c) (\<lambda>service.
      bind (print ''Drive service ready!'') (\<lambda>_.
      ret service))))))))))"

section \<open>The tools\<close>

definition LIST_FIELDS :: string where
  "LIST_FIELDS = ''files(id, name, mimeType, size, createdTime, modifiedTime, webViewLink)''"

definition list_drive_files :: "env \<Rightarrow> int \<Rightarrow> string \<Rightarrow> pyval io" where
  "list_drive_files E max_results query = try_log ''list_drive_files''
     (bind (get_drive E) (\<lambda>service.
      bind (ret ([(''pageSize'', PInt max_results), (''fields'', PStr LIST_FIELDS)]
                 @ (if query \<noteq> [] then [(''q'', PStr query)] else []))) (\<lambda>params.
      bind (execute E service (Request ''files.list'' params)) (\<lambda>results.
      bind (ret (dict_get results ''files'' (PList []))) (\<lambda>files.
      bind (lift (py_len files)) (\<lambda>n.
      bind (print (''Found '' @ str_nat n @ '' files'')) (\<lambda>_.
      ret files)))))))"

text \<open>\<^verbatim>\<open>f"name contains '{search_term}'"\<close>\<close>

definition search_query :: "string \<Rightarrow> string" where
  "search_query search_term = ''name contains '' @ [CHR 0x27] @ search_term @ [CHR 0x27]"

definition search_drive_files :: "env \<Rightarrow> string \<Rightarrow> int \<Rightarrow> pyval io" where
  "search_drive_files E search_term max_results = try_log ''search_drive_files''
     (bind (get_drive E) (\<lambda>service.
      bind (ret (search_query search_term)) (\<lambda>query.
      bind (execute E service (Request ''files.list''
              [(''q'', PStr query), (''pageSize'', PInt max_results),
               (''fields'', PStr LIST_FIELDS)])) (\<lambda>results.
      bind (ret (dict_get results ''files'' (PList []))) (\<lambda>files.
      bind (lift (py_len files)) (\<lambda>n.
      bind (print (''Found '' @ str_nat n @ '' files matching '' @ [CHR 0x27] @ search_term
                   @ [CHR 0x27])) (\<lambda>_.
      ret files)))))))"

text \<open>\<^verbatim>\<open>str(v)\<close> as the f-strings of the module print a name read from a response.\<close>

fun py_str :: "pyval \<Rightarrow> string" where
  "py_str (PStr s) = s"
| "py_str PNone = ''None''"
| "py_str (PBool b) = (if b then ''True'' else ''False'')"
| "py_str (PInt i) = (if i < 0 then ''-'' @ str_nat (nat (- i)) else str_nat (nat i))"
| "py_str v = ''<object>''"

definition create_folder :: "env \<Rightarrow> string \<Rightarrow> string option \<Rightarrow> pyval io" where
  "create_folder E folder_name parent_folder_id = try_log ''create_folder''
     (bind (get_drive E) (\<lambda>service.
      bind (ret ([(''name'', PStr folder_name),
                  (''mimeType'', PStr ''application/vnd.google-apps.folder'')]
                 @ (if truthy parent_folder_id
                    then [(''parents'', PList [PStr (the parent_folder_id)])] else []))) (\<lambda>file_metadata.
      bind (execute E service (Request ''files.create''
              [(''body'', PDict file_metadata), (''fields'', PStr ''id, name, webViewLink'')])) (\<lambda>folder.
      bind (print (''Created folder: '' @ py_str (dict_get folder ''name'' PNone))) (\<lambda>_.
      ret (PDict folder))))))"

definition upload_file :: "env \<Rightarrow> string \<Rightarrow> string option \<Rightarrow> string option \<Rightarrow> pyval io" where
  "upload_file E file_path file_name parent_folder_id = try_log ''upload_file''
     (bind (get_drive E) (\<lambda>service.
      bind (os_path_exists file_path) (\<lambda>present.
      bind (if \<not> present
            then raise (Exn ''FileNotFoundError'' (''File not found: '' @ file_path))
            else ret ()) (\<lambda>_.
      bind (ret ([(''name'', PStr (if truthy file_name then the file_name
                                    else os_path_basename file_path))]
                 @ (if truthy parent_folder_id
                    then [(''parents'', PList [PStr (the parent_folder_id)])] else []))) (\<lambda>file_metadata.
      bind (lift (media_file_upload E file_path True)) (\<lambda>media_body.
      bind (execute E service (Request ''files.create''
              [(''body'', PDict file_metadata), (''media_body'', media_body),
               (''fields'', PStr ''id, name, webViewLink'')])) (\<lambda>file.
      bind (print (''Uploaded file: '' @ py_str (dict_get file ''name'' PNone))) (\<lambda>_.
      ret (PDict file)))))))))"

definition delete_file :: "env \<Rightarrow> string \<Rightarrow> pyval io" where
  "delete_file E file_id = try_log ''delete_file''
     (bind (get_drive E) (\<lambda>service.
      bind (execute E service (Request ''files.delete'' [(''fileId'', PStr file_id)])) (\<lambda>_.
      bind (print (''Deleted file with ID: '' @ file_id)) (\<lambda>_.
      ret (PDict [(''success'', PBool True),
                  (''message'', PStr (''File '' @ file_id @ '' deleted successfully''))])))))"

text \<open>
  The loop of \<^verbatim>\<open>download_file\<close>:
  \<^verbatim>\<open>
  done = False
  while not done:
      status, done = downloader.next_chunk()
      print(f"Download progress: {int(status.progress() * 100)}%", file=sys.stderr)
  \<close>
  \<^verbatim>\<open>next_chunk\<close> fetches one chunk and writes its bytes to the open file, or raises.
\<close>

definition next_chunk :: "string \<Rightarrow> string \<Rightarrow> nat \<Rightarrow> bool \<Rightarrow> unit io" where
  "next_chunk dest d pct done =
     bind (emit (NextChunk (Inr (d, pct, done)))) (\<lambda>_. file_append dest d)"

fun download_loop :: "string \<Rightarrow> chunks \<Rightarrow> unit io" where
  "download_loop dest (Failed e) =
     bind (emit (NextChunk (Inl e))) (\<lambda>_. raise e)"
| "download_loop dest (Last d pct) =
     bind (next_chunk dest d pct True) (\<lambda>_.
     print (''Download progress: '' @ str_nat pct @ ''%''))"
| "download_loop dest (More d pct rest) =
     bind (next_chunk dest d pct False) (\<lambda>_.
     bind (print (''Download progress: '' @ str_nat pct @ ''%'')) (\<lambda>_.
     download_loop dest rest))"

definition download_file :: "env \<Rightarrow> string \<Rightarrow> string \<Rightarrow> pyval io" where
  "download_file E file_id destination_path = try_log ''download_file''
     (bind (get_drive E) (\<lambda>service.
      bind (ret (media E service file_id)) (\<lambda>request.
      bind (open_wb E destination_path) (\<lambda>_.
      bind (download_loop destination_path request) (\<lambda>_.
      bind (print (''Downloaded file to: '' @ destination_path)) (\<lambda>_.
      ret (PDict [(''success'', PBool True), (''path'', PStr destination_path)])))))))"

definition rename_file :: "env \<Rightarrow> string \<Rightarrow> string \<Rightarrow> pyval io" where
  "rename_file E file_id new_name = try_log ''rename_file''
     (bind (get_drive E) (\<lambda>service.
      bind (execute E service (Request ''files.update''
              [(''fileId'', PStr file_id), (''body'', PDict [(''name'', PStr new_name)]),
               (''fields'', PStr ''id, name, webViewLink'')])) (\<lambda>file.
      bind (print (''Renamed file to: '' @ py_str (dict_get file ''name'' PNone))) (\<lambda>_.
      ret (PDict file)))))"

definition move_file :: "env \<Rightarrow> string \<Rightarrow> string \<Rightarrow> pyval io" where
  "move_file E file_id new_parent_folder_id = try_log ''move_file''
     (bind (get_drive E) (\<lambda>service.
      bind (execute E service (Request ''files.get''
              [(''fileId'', PStr file_id), (''fields'', PStr ''parents'')])) (\<lambda>file.
      bind (lift (py_join '','' (dict_get file ''parents'' (PList [])))) (\<lambda>previous_parents.
      bind (execute E service (Request ''files.update''
              [(''fileId'', PStr file_id), (''addParents'', PStr new_parent_folder_id),
               (''removeParents'', PStr previous_parents),
               (''fields'', PStr ''id, name, parents, webViewLink'')])) (\<lambda>file.
      bind (print ''Moved file to new folder'') (\<lambda>_.
      ret (PDict file)))))))"

definition get_file_info :: "env \<Rightarrow> string \<Rightarrow> pyval io" where
  "get_file_info E file_id = try_log ''get_file_info''
     (bind (get_drive E) (\<lambda>service.
      bind (execute E service (Request ''files.get''
              [(''fileId'', PStr file_id),
               (''fields'', PStr ''id, name, mimeType, size, createdTime, modifiedTime, webViewLink, owners, permissions'')])) (\<lambda>file.
      ret (PDict file))))"

text \<open>
  A tool invocation as the protocol server receives it: an argument that the caller
  omits is \<open>None\<close> and takes the default of the signature.
\<close>

datatype tool_call =
    ListDriveFiles "int option" "string option"
  | SearchDriveFiles string "int option"
  | CreateFolder string "string option"
  | UploadFile string "string option" "string option"
  | DeleteFile string
  | DownloadFile string string
  | RenameFile string string
  | MoveFile string string
  | GetFileInfo string

fun tool_name :: "tool_call \<Rightarrow> string" where
  "tool_name (ListDriveFiles m q) = ''list_drive_files''"
| "tool_name (SearchDriveFiles s m) = ''search_drive_files''"
| "tool_name (CreateFolder n p) = ''create_folder''"
| "tool_name (UploadFile f n p) = ''upload_file''"
| "tool_name (DeleteFile i) = ''delete_file''"
| "tool_name (DownloadFile i d) = ''download_file''"
| "tool_name (RenameFile i n) = ''rename_file''"
| "tool_name (MoveFile i p) = ''move_file''"
| "tool_name (GetFileInfo i) = ''get_file_info''"

fun default :: "'a \<Rightarrow> 'a option \<Rightarrow> 'a" where
  "default d None = d"
| "default d (Some x) = x"

fun run :: "env \<Rightarrow> tool_call \<Rightarrow> pyval io" where
  "run E (ListDriveFiles m q) = list_drive_files E (default 10 m) (default [] q)"
| "run E (SearchDriveFiles s m) = search_drive_files E s (default 10 m)"
| "run E (CreateFolder n p) = create_folder E n p"
| "run E (UploadFile f n p) = upload_file E f n p"
| "run E (DeleteFile i) = delete_file E i"
| "run E (DownloadFile i d) = download_file E i d"
| "run E (RenameFile i n) = rename_file E i n"
| "run E (MoveFile i p) = move_file E i p"
| "run E (GetFileInfo i) = get_file_info E i"

section \<open>Vocabulary of the properties\<close>

text \<open>
  The exception an invocation ended with, if any. And the discipline no try/except of the
  module breaks: when an effect fails with \<open>e\<close>, the invocation ends with \<open>e\<close>
  and only lines on stderr come after the failed effect.
\<close>

fun err :: "exn + 'a \<Rightarrow> exn option" where
  "err (Inl e) = Some e"
| "err (Inr a) = None"

fun no_suppress :: "exn option \<Rightarrow> event list \<Rightarrow> bool" where
  "no_suppress r [] = True"
| "no_suppress r (ev # evs) =
     (case failure ev of
        None \<Rightarrow> no_suppress r evs
      | Some e \<Rightarrow> r = Some e \<and> list_all is_print evs)"

text \<open>
  A computation extends the trace, by effects that all satisfy \<open>P\<close> (\<open>only\<close>), or
  by effects that keep the discipline above (\<open>wf\<close>). The effects of the credential
  manager are lines on stderr, calls to the identity provider and the opening of the
  token store (\<open>auth_event\<close>).
\<close>

definition only :: "(event \<Rightarrow> bool) \<Rightarrow> 'a io \<Rightarrow> bool" where
  "only P m = (\<forall>w. \<exists>evs. trace (snd (m w)) = trace w @ evs \<and> list_all P evs)"

definition wf :: "'a io \<Rightarrow> bool" where
  "wf m = (\<forall>w. \<exists>evs. trace (snd (m w)) = trace w @ evs \<and> no_suppress (err (fst (m w))) evs)"

fun auth_event :: "event \<Rightarrow> bool" where
  "auth_event (Execute h req r) = False"
| "auth_event (NextChunk r) = False"
| "auth_event ev = True"

fun is_flow :: "event \<Rightarrow> bool" where
  "is_flow (Flow cf scopes r) = True"
| "is_flow ev = False"

text \<open>The effects of one invocation, and the requests it sent to the storage service.\<close>

definition new_events :: "world \<Rightarrow> world \<Rightarrow> event list" where
  "new_events w w' = drop (length (trace w)) (trace w')"

fun requests :: "event list \<Rightarrow> request list" where
  "requests [] = []"
| "requests (Execute h req r # evs) = req # requests evs"
| "requests (ev # evs) = requests evs"

text \<open>
  Where the credential of a returned handle comes from: the token store, a refresh of the
  stored credential, or the interactive authorization. And the premise of the
  credential invariant: the token store holds a credential that is valid, or that is
  expired with a refresh token and that the identity provider refreshes to a valid one.
\<close>

definition backed_by :: "env \<Rightarrow> world \<Rightarrow> creds \<Rightarrow> bool" where
  "backed_by E w c' =
     (case fs w (TOKEN_FILE E) of
        None \<Rightarrow> oauth_flow E (CREDENTIALS_FILE E) SCOPES = Inr c'
      | Some (Data d) \<Rightarrow> False
      | Some (Pickled c) \<Rightarrow>
          if valid c then c' = c
          else if expired c \<and> truthy (refresh_token c) then refresh E c = Inr c'
          else oauth_flow E (CREDENTIALS_FILE E) SCOPES = Inr c')"

definition initially_good :: "env \<Rightarrow> world \<Rightarrow> bool" where
  "initially_good E w =
     (case fs w (TOKEN_FILE E) of
        Some (Pickled c) \<Rightarrow>
          valid c \<or>
          (expired c \<and> truthy (refresh_token c) \<and>
           (case refresh E c of Inl e \<Rightarrow> False | Inr c' \<Rightarrow> valid c'))
      | _ \<Rightarrow> False)"

text \<open>
  The text of a filter between its first quote character and the next one: what a reader
  of the filter takes for the quoted operand.
\<close>

definition upto_next_quote :: "string \<Rightarrow> string" where
  "upto_next_quote s =
     takeWhile (\<lambda>c. c \<noteq> CHR 0x27) (drop 1 (dropWhile (\<lambda>c. c \<noteq> CHR 0x27) s))"

fun api_method :: "request \<Rightarrow> string" where
  "api_method (Request m kw) = m"

text \<open>
  What a sequence of chunks amounts to: the bytes of the chunks fetched before the end or
  the failure, the exception of the failed fetch if there is one, and the effects of the
  loop that consumes the sequence.
\<close>

fun chunk_bytes :: "chunks \<Rightarrow> string" where
  "chunk_bytes (Last d pct) = d"
| "chunk_bytes (More d pct rest) = d @ chunk_bytes rest"
| "chunk_bytes (Failed e) = []"

fun chunk_error :: "chunks \<Rightarrow> exn option" where
  "chunk_error (Last d pct) = None"
| "chunk_error (More d pct rest) = chunk_error rest"
| "chunk_error (Failed e) = Some e"

fun chunk_events :: "chunks \<Rightarrow> event list" where
  "chunk_events (Last d pct) =
     [NextChunk (Inr (d, pct, True)), Print (''Download progress: '' @ str_nat pct @ ''%'')]"
| "chunk_events (More d pct rest) =
     [NextChunk (Inr (d, pct, False)), Print (''Download progress: '' @ str_nat pct @ ''%'')]
     @ chunk_events rest"
| "chunk_events (Failed e) = [NextChunk (Inl e)]"

text \<open>
  How every function of the module ends when an exception \<open>e\<close> is raised in it: the
  caller gets \<open>e\<close>, the world is the one the exception was raised in after the effects
  \<open>evs\<close>, and the last effect is the line \<^verbatim>\<open>ERROR in <name>: <str(e)>\<close> on stderr.
\<close>

definition logged :: "string \<Rightarrow> exn \<Rightarrow> world \<Rightarrow> event list \<Rightarrow> (exn + 'a) \<times> world" where
  "logged name e w evs =
     (Inl e, w\<lparr>trace := trace w @ evs @ [Print (''ERROR in '' @ name @ '': '' @ str e)]\<rparr>)"

named_theorems only_intros
named_theorems wf_intros

section \<open>Concrete environments and worlds\<close>

text \<open>
  A script directory \<^verbatim>\<open>/app\<close> holding the client secret and a token store, an
  identity provider that answers, and a storage service with one file.
\<close>

definition c_valid :: creds where
  "c_valid = \<lparr>token = ''ya29.live'', refresh_token = Some ''1//r'', valid = True, expired = False\<rparr>"

definition c_expired :: creds where
  "c_expired = \<lparr>token = ''ya29.old'', refresh_token = Some ''1//r'', valid = False, expired = True\<rparr>"

definition c_fresh :: creds where
  "c_fresh = \<lparr>token = ''ya29.fresh'', refresh_token = Some ''1//r'', valid = True, expired = False\<rparr>"

definition c_new :: creds where
  "c_new = \<lparr>token = ''ya29.new'', refresh_token = Some ''1//n'', valid = True, expired = False\<rparr>"

definition api0 :: "handle \<Rightarrow> request \<Rightarrow> exn + pydict" where
  "api0 h req =
     (case req of Request m kw \<Rightarrow>
        if m = ''files.list'' then
          Inr [(''files'', PList [PDict [(''id'', PStr ''f1''), (''name'', PStr ''report.txt'')]])]
        else if m = ''files.get'' then
          Inr [(''parents'', PList [PStr ''p1'', PStr ''p2''])]
        else if m = ''files.update'' then
          Inr [(''id'', PStr ''f1''), (''name'', PStr ''report.txt''),
               (''parents'', PList [PStr ''p3'']), (''webViewLink'', PStr ''https://drive/f1'')]
        else Inr [(''id'', PStr ''f2''), (''name'', PStr ''made''), (''webViewLink'', PStr ''https://drive/f2'')])"

definition E0 :: env where
  "E0 = \<lparr>script_dir = ''/app'',
          refresh = (\<lambda>c. Inr c_fresh),
          oauth_flow = (\<lambda>cf scopes. Inr c_new),
          api = api0,
          media = (\<lambda>h file_id. More ''ab'' 50 (Last ''cd'' 100)),
          unwritable = (\<lambda>p. None),
          unreadable = (\<lambda>p. None)\<rparr>"

definition E_refresh_fails :: env where
  "E_refresh_fails = E0\<lparr>refresh := (\<lambda>c. Inl (Exn ''RefreshError'' ''invalid_grant''))\<rparr>"

definition w_valid :: world where
  "w_valid = \<lparr>fs = [''/app/credentials.json'' \<mapsto> Data ''{}'', ''/app/token.pickle'' \<mapsto> Pickled c_valid],
              trace = []\<rparr>"

definition w_expired :: world where
  "w_expired = \<lparr>fs = [''/app/credentials.json'' \<mapsto> Data ''{}'', ''/app/token.pickle'' \<mapsto> Pickled c_expired],
                trace = []\<rparr>"

definition w_no_secret :: world where
  "w_no_secret = \<lparr>fs = [''/app/token.pickle'' \<mapsto> Pickled c_valid], trace = []\<rparr>"

definition w_with_report :: world where
  "w_with_report =
     \<lparr>fs = [''/app/credentials.json'' \<mapsto> Data ''{}'', ''/app/token.pickle'' \<mapsto> Pickled c_valid,
            ''/home/u/report.txt'' \<mapsto> Data ''q3 figures''],
      trace = []\<rparr>"

definition E_chunk_fails :: env where
  "E_chunk_fails =
     E0\<lparr>media := (\<lambda>h file_id. More ''ab'' 50 (Failed (Exn ''HttpError'' ''503 backend error'')))\<rparr>"

definition w_with_old_copy :: world where
  "w_with_old_copy =
     \<lparr>fs = [''/app/credentials.json'' \<mapsto> Data ''{}'', ''/app/token.pickle'' \<mapsto> Pickled c_valid,
            ''/home/u/out.bin'' \<mapsto> Data ''previous content''],
      trace = []\<rparr>"

definition E_bad_files :: env where
  "E_bad_files = E0\<lparr>api := (\<lambda>h req. Inr [(''files'', PInt 3)])\<rparr>"

section \<open>Which effects a computation has\<close>

lemmas io_defs = ret_def raise_def bind_def lift_def emit_def print_def try_log_def
  os_path_exists_def pickle_load_def open_wb_def file_put_def pickle_dump_def file_append_def
  creds_refresh_def run_flow_def build_def execute_def

lemmas get_drive_defs = get_drive_def load_token_def login_def needs_login_def has_refresh_def

lemmas fixture_defs = E0_def E_refresh_fails_def w_valid_def w_expired_def w_no_secret_def
  c_valid_def c_expired_def c_fresh_def c_new_def CREDENTIALS_FILE_def TOKEN_FILE_def os_path_join_def

lemma only_ret [only_intros]: "only P (ret a)"
  by (simp add: only_def ret_def)

lemma only_raise [only_intros]: "only P (raise e)"
  by (simp add: only_def raise_def)

lemma only_lift [only_intros]: "only P (lift r)"
  by (simp add: only_def lift_def)

lemma only_emit: "P ev \<Longrightarrow> only P (emit ev)"
  by (simp add: only_def emit_def)

lemma only_print [only_intros]: "P (Print s) \<Longrightarrow> only P (print s)"
  by (simp add: print_def only_emit)

lemma only_bind [only_intros]:
  assumes m: "only P m" and f: "\<And>a. only P (f a)"
  shows "only P (bind m f)"
  unfolding only_def
proof
  fix w
  from m obtain evs1 where 1: "trace (snd (m w)) = trace w @ evs1" "list_all P evs1"
    unfolding only_def by blast
  show "\<exists>evs. trace (snd (bind m f w)) = trace w @ evs \<and> list_all P evs"
  proof (cases "m w")
    case (Pair r w1)
    show ?thesis
    proof (cases r)
      case (Inl e)
      with Pair 1 show ?thesis by (auto simp: bind_def)
    next
      case (Inr a)
      from f obtain evs2 where 2: "trace (snd (f a w1)) = trace w1 @ evs2" "list_all P evs2"
        unfolding only_def by blast
      with Pair Inr 1 have "trace (snd (bind m f w)) = trace w @ (evs1 @ evs2)"
        by (simp add: bind_def)
      moreover have "list_all P (evs1 @ evs2)" using 1 2 by simp
      ultimately show ?thesis by blast
    qed
  qed
qed

lemma only_try_log [only_intros]:
  assumes m: "only P m" and p: "\<And>s. P (Print s)"
  shows "only P (try_log name m)"
  unfolding only_def
proof
  fix w
  from m obtain evs1 where 1: "trace (snd (m w)) = trace w @ evs1" "list_all P evs1"
    unfolding only_def by blast
  then show "\<exists>evs. trace (snd (try_log name m w)) = trace w @ evs \<and> list_all P evs"
    using p by (cases "m w") (auto simp: try_log_def split: sum.splits)
qed

lemma only_if [only_intros]: "only P a \<Longrightarrow> only P b \<Longrightarrow> only P (if c then a else b)"
  by simp

lemma only_os_path_exists [only_intros]: "only P (os_path_exists p)"
  by (simp add: only_def os_path_exists_def)

lemma only_pickle_load [only_intros]: "only P (pickle_load p)"
  by (simp add: only_def pickle_load_def split: option.splits fcontent.splits)

lemma only_file_put [only_intros]: "only P (file_put p c)"
  by (simp add: only_def file_put_def)

lemma only_file_append [only_intros]: "only P (file_append p d)"
  by (simp add: only_def file_append_def)

lemma only_open_wb [only_intros]: "(\<And>r. P (OpenWb p r)) \<Longrightarrow> only P (open_wb E p)"
  by (simp add: only_def open_wb_def split: option.splits)

lemma only_creds_refresh [only_intros]: "(\<And>r. P (Refresh c r)) \<Longrightarrow> only P (creds_refresh E c)"
  by (simp add: only_def creds_refresh_def)

lemma only_run_flow [only_intros]: "(\<And>r. P (Flow cf scopes r)) \<Longrightarrow> only P (run_flow E cf scopes)"
  by (simp add: only_def run_flow_def)

lemma only_execute [only_intros]: "(\<And>r. P (Execute h req r)) \<Longrightarrow> only P (execute E h req)"
  by (simp add: only_def execute_def)

lemma only_build [only_intros]: "only P (build n v c)"
  by (simp add: build_def only_ret)

lemma get_drive_events: "only auth_event (get_drive E)"
  unfolding get_drive_def load_token_def login_def pickle_dump_def
  by (intro only_intros) simp_all

section \<open>No failure is swallowed\<close>

lemma no_suppress_clean: "no_suppress None evs = list_all (\<lambda>ev. failure ev = None) evs"
  by (induction evs) (auto split: option.splits)

lemma no_suppress_append_clean:
  "list_all (\<lambda>ev. failure ev = None) evs1 \<Longrightarrow> no_suppress r (evs1 @ evs2) = no_suppress r evs2"
  by (induction evs1) auto

lemma is_print_clean: "is_print ev \<Longrightarrow> failure ev = None"
  by (cases ev) auto

lemma no_suppress_prints: "list_all is_print ps \<Longrightarrow> no_suppress r ps"
  by (induction ps) (auto simp: is_print_clean)

lemma no_suppress_append_prints:
  "no_suppress r evs \<Longrightarrow> list_all is_print ps \<Longrightarrow> no_suppress r (evs @ ps)"
  by (induction evs) (auto simp: no_suppress_prints split: option.splits)

lemma wf_ret [wf_intros]: "wf (ret a)"
  by (simp add: wf_def ret_def)

lemma wf_raise [wf_intros]: "wf (raise e)"
  by (simp add: wf_def raise_def)

lemma wf_lift [wf_intros]: "wf (lift r)"
  by (simp add: wf_def lift_def)

lemma wf_emit: "failure ev = None \<Longrightarrow> wf (emit ev)"
  by (simp add: wf_def emit_def)

lemma wf_print [wf_intros]: "wf (print s)"
  by (simp add: print_def wf_emit)

lemma wf_bind [wf_intros]:
  assumes m: "wf m" and f: "\<And>a. wf (f a)"
  shows "wf (bind m f)"
  unfolding wf_def
proof
  fix w
  from m obtain evs1 where 1: "trace (snd (m w)) = trace w @ evs1"
      "no_suppress (err (fst (m w))) evs1"
    unfolding wf_def by blast
  show "\<exists>evs. trace (snd (bind m f w)) = trace w @ evs \<and> no_suppress (err (fst (bind m f w))) evs"
  proof (cases "m w")
    case (Pair r w1)
    show ?thesis
    proof (cases r)
      case (Inl e)
      with Pair 1 show ?thesis by (auto simp: bind_def)
    next
      case (Inr a)
      with Pair 1 have clean: "list_all (\<lambda>ev. failure ev = None) evs1"
        by (simp add: no_suppress_clean)
      from f obtain evs2 where 2: "trace (snd (f a w1)) = trace w1 @ evs2"
          "no_suppress (err (fst (f a w1))) evs2"
        unfolding wf_def by blast
      from Pair Inr 1 2 have "trace (snd (bind m f w)) = trace w @ (evs1 @ evs2)"
        by (simp add: bind_def)
      moreover from Pair Inr 2 clean have "no_suppress (err (fst (bind m f w))) (evs1 @ evs2)"
        by (simp add: bind_def no_suppress_append_clean)
      ultimately show ?thesis by blast
    qed
  qed
qed

lemma wf_try_log [wf_intros]:
  assumes m: "wf m"
  shows "wf (try_log name m)"
  unfolding wf_def
proof
  fix w
  from m obtain evs1 where 1: "trace (snd (m w)) = trace w @ evs1"
      "no_suppress (err (fst (m w))) evs1"
    unfolding wf_def by blast
  show "\<exists>evs. trace (snd (try_log name m w)) = trace w @ evs
          \<and> no_suppress (err (fst (try_log name m w))) evs"
  proof (cases "m w")
    case (Pair r w1)
    show ?thesis
    proof (cases r)
      case (Inl e)
      with Pair 1 have "no_suppress (Some e) (evs1 @ [Print (''ERROR in '' @ name @ '': '' @ str e)])"
        by (simp add: no_suppress_append_prints)
      with Pair Inl 1 show ?thesis by (simp add: try_log_def)
    next
      case (Inr a)
      with Pair 1 show ?thesis by (auto simp: try_log_def)
    qed
  qed
qed

lemma wf_if [wf_intros]: "wf a \<Longrightarrow> wf b \<Longrightarrow> wf (if c then a else b)"
  by simp

lemma wf_os_path_exists [wf_intros]: "wf (os_path_exists p)"
  by (simp add: wf_def os_path_exists_def)

lemma wf_pickle_load [wf_intros]: "wf (pickle_load p)"
  by (simp add: wf_def pickle_load_def split: option.splits fcontent.splits)

lemma wf_file_put [wf_intros]: "wf (file_put p c)"
  by (simp add: wf_def file_put_def)

lemma wf_file_append [wf_intros]: "wf (file_append p d)"
  by (simp add: wf_def file_append_def)

lemma wf_open_wb [wf_intros]: "wf (open_wb E p)"
  by (simp add: wf_def open_wb_def split: option.splits)

lemma wf_creds_refresh [wf_intros]: "wf (creds_refresh E c)"
  by (simp add: wf_def creds_refresh_def split: sum.splits)

lemma wf_run_flow [wf_intros]: "wf (run_flow E cf scopes)"
  by (simp add: wf_def run_flow_def split: sum.splits)

lemma wf_execute [wf_intros]: "wf (execute E h req)"
  by (simp add: wf_def execute_def split: sum.splits)

lemma wf_build [wf_intros]: "wf (build n v c)"
  by (simp add: build_def wf_ret)

lemma wf_next_chunk [wf_intros]: "wf (next_chunk dest d pct done)"
  unfolding next_chunk_def by (intro wf_bind wf_emit wf_file_append) simp

lemma wf_download_loop [wf_intros]: "wf (download_loop dest cs)"
proof (induction cs)
  case (Last d pct)
  show ?case by (simp del: bind_def) (intro wf_intros)
next
  case (More d pct rest)
  then show ?case by (simp del: bind_def) (intro wf_intros)
next
  case (Failed e)
  show ?case by (simp add: wf_def bind_def emit_def raise_def)
qed

lemma get_drive_frame: "\<exists>body. get_drive E = try_log ''get_drive'' body \<and> wf body"
  unfolding get_drive_def load_token_def login_def pickle_dump_def
  by (intro exI conjI, rule refl, intro wf_intros)

lemma wf_get_drive [wf_intros]: "wf (get_drive E)"
  using get_drive_frame [of E] wf_try_log by auto

lemma run_frame: "\<exists>body. run E t = try_log (tool_name t) body \<and> wf body"
proof (cases t)
  case (ListDriveFiles m q)
  show ?thesis unfolding ListDriveFiles run.simps tool_name.simps list_drive_files_def
    by (intro exI conjI, rule refl, intro wf_intros)
next
  case (SearchDriveFiles s m)
  show ?thesis unfolding SearchDriveFiles run.simps tool_name.simps search_drive_files_def
    by (intro exI conjI, rule refl, intro wf_intros)
next
  case (CreateFolder n p)
  show ?thesis unfolding CreateFolder run.simps tool_name.simps create_folder_def
    by (intro exI conjI, rule refl, intro wf_intros)
next
  case (UploadFile f n p)
  show ?thesis unfolding UploadFile run.simps tool_name.simps upload_file_def
    by (intro exI conjI, rule refl, intro wf_intros)
next
  case (DeleteFile i)
  show ?thesis unfolding DeleteFile run.simps tool_name.simps delete_file_def
    by (intro exI conjI, rule refl, intro wf_intros)
next
  case (DownloadFile i d)
  show ?thesis unfolding DownloadFile run.simps tool_name.simps download_file_def
    by (intro exI conjI, rule refl, intro wf_intros)
next
  case (RenameFile i n)
  show ?thesis unfolding RenameFile run.simps tool_name.simps rename_file_def
    by (intro exI conjI, rule refl, intro wf_intros)
next
  case (MoveFile i p)
  show ?thesis unfolding MoveFile run.simps tool_name.simps move_file_def
    by (intro exI conjI, rule refl, intro wf_intros)
next
  case (GetFileInfo i)
  show ?thesis unfolding GetFileInfo run.simps tool_name.simps get_file_info_def
    by (intro exI conjI, rule refl, intro wf_intros)
qed

lemma try_log_last:
  assumes m: "wf m"
    and a: "fst (try_log name m w) = Inl e"
    and b: "trace (snd (try_log name m w)) = trace w @ evs"
  shows "evs \<noteq> [] \<and> last evs = Print (''ERROR in '' @ name @ '': '' @ str e)"
proof -
  from m obtain evs1 where 1: "trace (snd (m w)) = trace w @ evs1" unfolding wf_def by blast
  from a have "trace (snd (try_log name m w)) = trace (snd (m w)) @ [Print (''ERROR in '' @ name @ '': '' @ str e)]"
    by (cases "m w") (auto simp: try_log_def split: sum.splits)
  with 1 b have "evs = evs1 @ [Print (''ERROR in '' @ name @ '': '' @ str e)]" by simp
  then show ?thesis by simp
qed

lemma wf_run: "wf (run E t)"
  using run_frame [of E t] wf_try_log by auto

section \<open>What the credential manager touches\<close>

lemma get_drive_backed: "get_drive E w = (Inr h, w') \<Longrightarrow> backed_by E w (handle_creds h)"
  unfolding backed_by_def
  by (auto simp: get_drive_defs io_defs split: if_splits option.splits fcontent.splits sum.splits)


lemma get_drive_persisted:
  "get_drive E w = (Inr h, w') \<Longrightarrow> fs w' (TOKEN_FILE E) = Some (Pickled (handle_creds h))"
  by (auto simp: get_drive_defs io_defs split: if_splits option.splits fcontent.splits sum.splits)

lemma requests_append: "requests (xs @ ys) = requests xs @ requests ys"
  by (induction xs rule: requests.induct) auto

lemma requests_auth: "list_all auth_event evs \<Longrightarrow> requests evs = []"
  by (induction evs rule: requests.induct) auto

lemma get_drive_trace:
  "get_drive E w = (r, w1) \<Longrightarrow> \<exists>evs. trace w1 = trace w @ evs \<and> list_all auth_event evs"
  using get_drive_events [of E] unfolding only_def by (metis snd_conv)

lemma get_drive_fs:
  "get_drive E w = (r, w1) \<Longrightarrow> p \<noteq> TOKEN_FILE E \<Longrightarrow> fs w1 p = fs w p"
  by (auto simp: get_drive_defs io_defs split: if_splits option.splits fcontent.splits sum.splits)

section \<open>A tool after the handle is acquired\<close>

lemma requests_after_acquire:
  assumes "get_drive E w = (r, w1)" and "trace w' = trace w1 @ evs"
  shows "requests (new_events w w') = requests evs"
proof -
  from assms(1) obtain evs1 where "trace w1 = trace w @ evs1" "list_all auth_event evs1"
    using get_drive_trace by blast
  with assms(2) show ?thesis
    by (simp add: new_events_def requests_append requests_auth)
qed

lemma acquire_fails:
  "get_drive E w = (Inl e, w1) \<Longrightarrow>
   try_log name (bind (get_drive E) f) w =
     (Inl e, w1\<lparr>trace := trace w1 @ [Print (''ERROR in '' @ name @ '': '' @ str e)]\<rparr>)"
  by (simp add: try_log_def bind_def)

lemma acquire_fails_requests:
  assumes "get_drive E w = (Inl e, w1)"
  shows "requests (new_events w (snd (try_log name (bind (get_drive E) f) w))) = []"
  using requests_after_acquire [OF assms, of _ "[Print (''ERROR in '' @ name @ '': '' @ str e)]"]
  by (simp add: acquire_fails [OF assms])

lemma the_strs_map: "the_strs (map PStr ss) = Some ss"
  by (induction ss) auto

lemma search_after_acquire:
  assumes "get_drive E w = (Inr h, w1)"
  shows "\<exists>evs. trace (snd (search_drive_files E term n w)) = trace w1 @ evs \<and>
     requests evs = [Request ''files.list''
              [(''q'', PStr (''name contains '' @ [CHR 0x27] @ term @ [CHR 0x27])),
               (''pageSize'', PInt n), (''fields'', PStr LIST_FIELDS)]]"
  using assms by (auto simp: search_drive_files_def io_defs search_query_def split: sum.splits)

lemma search_result:
  assumes "get_drive E w = (Inr h, w1)"
    and "fst (search_drive_files E term n w) = Inr v"
  shows "\<exists>results. api E h (Request ''files.list''
              [(''q'', PStr (''name contains '' @ [CHR 0x27] @ term @ [CHR 0x27])),
               (''pageSize'', PInt n), (''fields'', PStr LIST_FIELDS)]) = Inr results \<and>
           v = dict_get results ''files'' (PList [])"
  using assms by (auto simp: search_drive_files_def io_defs search_query_def split: sum.splits)

lemma upto_next_quote_query:
  "CHR 0x27 \<notin> set a \<Longrightarrow>
   upto_next_quote (''name contains '' @ [CHR 0x27] @ a @ [CHR 0x27] @ b) = a"
  by (simp add: upto_next_quote_def takeWhile_append)

lemma move_after_acquire:
  assumes "get_drive E w = (Inr h, w1)"
  shows "\<exists>evs. trace (snd (move_file E file_id np w)) = trace w1 @ evs \<and>
     length (filter (\<lambda>r. api_method r = ''files.update'') (requests evs)) \<le> 1"
  using assms by (auto simp: move_file_def io_defs split: sum.splits)

lemma move_after_get:
  assumes "get_drive E w = (Inr h, w1)"
    and "api E h (Request ''files.get'' [(''fileId'', PStr file_id), (''fields'', PStr ''parents'')]) = Inr file"
    and "py_join '','' (dict_get file ''parents'' (PList [])) = Inr removed"
  shows "\<exists>evs. trace (snd (move_file E file_id np w)) = trace w1 @ evs \<and>
     requests evs =
       [Request ''files.get'' [(''fileId'', PStr file_id), (''fields'', PStr ''parents'')],
        Request ''files.update''
          [(''fileId'', PStr file_id), (''addParents'', PStr np),
           (''removeParents'', PStr removed),
           (''fields'', PStr ''id, name, parents, webViewLink'')]]"
  using assms by (auto simp: move_file_def io_defs split: sum.splits)

lemma list_after_acquire:
  assumes "get_drive E w = (Inr h, w1)"
  shows "\<exists>evs. trace (snd (list_drive_files E n '''' w)) = trace w1 @ evs \<and>
     requests evs = [Request ''files.list'' [(''pageSize'', PInt n), (''fields'', PStr LIST_FIELDS)]]"
  using assms by (auto simp: list_drive_files_def io_defs split: sum.splits)

lemma create_after_acquire:
  assumes "get_drive E w = (Inr h, w1)"
  shows "\<exists>evs. trace (snd (create_folder E name (Some '''') w)) = trace w1 @ evs \<and>
     requests evs = [Request ''files.create''
        [(''body'', PDict [(''name'', PStr name),
                           (''mimeType'', PStr ''application/vnd.google-apps.folder'')]),
         (''fields'', PStr ''id, name, webViewLink'')]]"
  using assms by (auto simp: create_folder_def io_defs split: sum.splits)

lemma upload_after_acquire:
  assumes "get_drive E w = (Inr h, w1)"
  shows "\<exists>evs. trace (snd (upload_file E path (Some '''') (Some '''') w)) = trace w1 @ evs \<and>
     set (requests evs) \<subseteq> {Request ''files.create''
        [(''body'', PDict [(''name'', PStr (os_path_basename path))]),
         (''media_body'', PMedia path True),
         (''fields'', PStr ''id, name, webViewLink'')]}"
  using assms
  by (auto simp: upload_file_def io_defs media_file_upload_def split: sum.splits option.splits)

section \<open>The download loop\<close>

lemma file_append_data:
  "fs w p = Some (Data old) \<Longrightarrow>
   file_append p d w = (Inr (), w\<lparr>fs := (fs w)(p \<mapsto> Data (old @ d))\<rparr>)"
  by (simp add: file_append_def)

lemma next_chunk_run:
  "fs w dest = Some (Data old) \<Longrightarrow>
   next_chunk dest d pct done w =
     (Inr (), w\<lparr>fs := (fs w)(dest \<mapsto> Data (old @ d)),
                trace := trace w @ [NextChunk (Inr (d, pct, done))]\<rparr>)"
  by (simp add: next_chunk_def bind_def emit_def file_append_data)

lemma download_loop_run:
  "fs w dest = Some (Data old) \<Longrightarrow>
   download_loop dest cs w =
     ((case chunk_error cs of Some e \<Rightarrow> Inl e | None \<Rightarrow> Inr ()),
      w\<lparr>fs := (fs w)(dest \<mapsto> Data (old @ chunk_bytes cs)), trace := trace w @ chunk_events cs\<rparr>)"
proof (induction cs arbitrary: w old)
  case (Last d pct)
  then show ?case by (cases w) (auto simp: next_chunk_run bind_def print_def emit_def fun_eq_iff)
next
  case (More d pct rest)
  let ?w = "w\<lparr>fs := (fs w)(dest \<mapsto> Data (old @ d)),
              trace := trace w @ [NextChunk (Inr (d, pct, False)),
                                  Print (''Download progress: '' @ str_nat pct @ ''%'')]\<rparr>"
  have "fs ?w dest = Some (Data (old @ d))" by simp
  from More.IH [OF this] More.prems show ?case
    by (cases w) (auto simp: next_chunk_run bind_def print_def emit_def fun_eq_iff)
next
  case (Failed e)
  then have "(fs w)(dest \<mapsto> Data old) = fs w" by (simp add: map_upd_triv)
  then show ?case by (simp add: bind_def emit_def raise_def)
qed

lemma download_after_open:
  assumes "get_drive E w = (Inr h, w1)" and "unwritable E dest = None"
  shows "download_file E file_id dest w =
     (case chunk_error (media E h file_id) of
        Some e \<Rightarrow>
          (Inl e,
           w1\<lparr>fs := (fs w1)(dest \<mapsto> Data (chunk_bytes (media E h file_id))),
               trace := trace w1 @ OpenWb dest None # chunk_events (media E h file_id)
                        @ [Print (''ERROR in download_file: '' @ str e)]\<rparr>)
      | None \<Rightarrow>
          (Inr (PDict [(''success'', PBool True), (''path'', PStr dest)]),
           w1\<lparr>fs := (fs w1)(dest \<mapsto> Data (chunk_bytes (media E h file_id))),
               trace := trace w1 @ OpenWb dest None # chunk_events (media E h file_id)
                        @ [Print (''Downloaded file to: '' @ dest)]\<rparr>))"
proof -
  let ?w2 = "w1\<lparr>fs := (fs w1)(dest \<mapsto> Data []), trace := trace w1 @ [OpenWb dest None]\<rparr>"
  have o: "open_wb E dest w1 = (Inr (), ?w2)"
    using assms(2) by (simp add: open_wb_def)
  have "fs ?w2 dest = Some (Data [])" by simp
  from download_loop_run [OF this, of "media E h file_id"]
  have l: "download_loop dest (media E h file_id) ?w2 =
     ((case chunk_error (media E h file_id) of Some e \<Rightarrow> Inl e | None \<Rightarrow> Inr ()),
      w1\<lparr>fs := (fs w1)(dest \<mapsto> Data (chunk_bytes (media E h file_id))),
          trace := trace w1 @ OpenWb dest None # chunk_events (media E h file_id)\<rparr>)"
    by simp
  show ?thesis
    using assms(1) o l
    by (simp add: download_file_def try_log_def bind_def ret_def print_def emit_def
        split: option.splits)
qed

lemma download_open_fails:
  assumes "get_drive E w = (Inr h, w1)" and "unwritable E dest = Some e"
  shows "download_file E file_id dest w =
     (Inl e, w1\<lparr>trace := trace w1 @ [OpenWb dest (Some e), Print (''ERROR in download_file: '' @ str e)]\<rparr>)"
  using assms by (simp add: download_file_def try_log_def bind_def ret_def open_wb_def)

section \<open>The credential manager\<close>

text \<open>
  Claim C1. Whenever \<^verbatim>\<open>get_drive\<close> returns a handle, the credential of the handle
  is the stored one (which then was valid when tested), or what the refresh of the stored
  one returned, or what the interactive authorization returned (\<open>backed_by\<close>); it is
  also what the token store holds afterwards. Given a token store that held a valid or a
  refreshable credential (\<open>initially_good\<close>), the credential of the handle is valid.
\<close>

theorem get_drive_returns_valid_credential:
  "get_drive E w = (Inr h, w') \<Longrightarrow>
   backed_by E w (handle_creds h) \<and>
   (initially_good E w \<longrightarrow> valid (handle_creds h)) \<and>
   fs w' (TOKEN_FILE E) = Some (Pickled (handle_creds h))"
proof (intro conjI impI)
  assume r: "get_drive E w = (Inr h, w')"
  then show b: "backed_by E w (handle_creds h)" by (rule get_drive_backed)
  from r show "fs w' (TOKEN_FILE E) = Some (Pickled (handle_creds h))" by (rule get_drive_persisted)
  assume "initially_good E w"
  with b show "valid (handle_creds h)"
    by (auto simp: backed_by_def initially_good_def
        split: option.splits fcontent.splits if_splits sum.splits)
qed

theorem get_drive_returns_valid_credential_witness:
  "get_drive E0 w_expired = (Inr (Service ''drive'' ''v3'' c_fresh), snd (get_drive E0 w_expired)) \<and>
   initially_good E0 w_expired \<and>
   backed_by E0 w_expired c_fresh \<and> valid c_fresh \<and>
   fs (snd (get_drive E0 w_expired)) (TOKEN_FILE E0) = Some (Pickled c_fresh) \<and>
   get_drive E0 w_valid = (Inr (Service ''drive'' ''v3'' c_valid), snd (get_drive E0 w_valid)) \<and>
   initially_good E0 w_valid \<and> backed_by E0 w_valid c_valid \<and> valid c_valid"
proof -
  have 1: "get_drive E0 w_expired = (Inr (Service ''drive'' ''v3'' c_fresh), snd (get_drive E0 w_expired))"
    by (simp add: get_drive_defs io_defs fixture_defs)
  have 2: "initially_good E0 w_expired"
    by (simp add: initially_good_def fixture_defs)
  have 3: "get_drive E0 w_valid = (Inr (Service ''drive'' ''v3'' c_valid), snd (get_drive E0 w_valid))"
    by (simp add: get_drive_defs io_defs fixture_defs)
  have 4: "initially_good E0 w_valid"
    by (simp add: initially_good_def fixture_defs)
  from get_drive_returns_valid_credential [OF 1] get_drive_returns_valid_credential [OF 3] 1 2 3 4
  show ?thesis by simp
qed

text \<open>
  Claim C2, as amended. \<^verbatim>\<open>get_drive\<close> tests the client-secret file first
  (\<^verbatim>\<open>if not os.path.exists(CREDENTIALS_FILE): raise FileNotFoundError\<close>), before it
  looks at the token store. So: when the client-secret file is present and the persisted
  credential loads and is valid, \<^verbatim>\<open>get_drive\<close> returns the handle built from that
  credential, and its only effects are five lines on stderr: no refresh, no interactive
  authorization, no write to the token store. When the client-secret file is absent,
  \<^verbatim>\<open>get_drive\<close> raises FileNotFoundError whatever the token store holds.
\<close>

theorem get_drive_valid_token:
  "(fs w (CREDENTIALS_FILE E) \<noteq> None \<and> fs w (TOKEN_FILE E) = Some (Pickled c) \<and> valid c \<longrightarrow>
      get_drive E w =
        (Inr (Service ''drive'' ''v3'' c),
         w\<lparr>trace := trace w @
            [Print ''Starting authentication process...'',
             Print (''credentials.json found at '' @ CREDENTIALS_FILE E),
             Print ''Loading existing token...'',
             Print ''Building Drive service...'',
             Print ''Drive service ready!'']\<rparr>)) \<and>
   (fs w (CREDENTIALS_FILE E) = None \<longrightarrow>
      get_drive E w =
        (Inl (Exn ''FileNotFoundError'' (''credentials.json not found at '' @ CREDENTIALS_FILE E)),
         w\<lparr>trace := trace w @
            [Print ''Starting authentication process...'',
             Print (''ERROR: credentials.json not found at '' @ CREDENTIALS_FILE E @ ''!''),
             Print (''ERROR in get_drive: credentials.json not found at '' @ CREDENTIALS_FILE E)]\<rparr>))"
  by (simp add: get_drive_defs io_defs)

theorem get_drive_valid_token_witness:
  "fs w_valid (CREDENTIALS_FILE E0) \<noteq> None \<and>
   fs w_valid (TOKEN_FILE E0) = Some (Pickled c_valid) \<and> valid c_valid \<and>
   fst (get_drive E0 w_valid) = Inr (Service ''drive'' ''v3'' c_valid) \<and>
   filter remote (trace (snd (get_drive E0 w_valid))) = [] \<and>
   fs (snd (get_drive E0 w_valid)) = fs w_valid \<and>
   fs w_no_secret (CREDENTIALS_FILE E0) = None \<and>
   fst (get_drive E0 w_no_secret) =
     Inl (Exn ''FileNotFoundError'' ''credentials.json not found at /app/credentials.json'')"
  using get_drive_valid_token [of w_valid E0 c_valid] get_drive_valid_token [of w_no_secret E0 c_valid]
  by (simp add: fixture_defs)

theorem get_drive_needs_client_secret_counterexample:
  "fs w_no_secret (TOKEN_FILE E0) = Some (Pickled c_valid) \<and> valid c_valid \<and> \<not> expired c_valid \<and>
   fs w_no_secret (CREDENTIALS_FILE E0) = None \<and>
   get_drive E0 w_no_secret =
     (Inl (Exn ''FileNotFoundError'' ''credentials.json not found at /app/credentials.json''),
      w_no_secret\<lparr>trace :=
        [Print ''Starting authentication process...'',
         Print ''ERROR: credentials.json not found at /app/credentials.json!'',
         Print ''ERROR in get_drive: credentials.json not found at /app/credentials.json'']\<rparr>)"
  by (simp add: get_drive_defs io_defs fixture_defs)

text \<open>
  Claim C3, as amended. When the persisted credential is not valid, is expired and holds a
  refresh token, and the refresh call raises \<open>e\<close>, \<^verbatim>\<open>get_drive\<close> logs
  \<open>e\<close> and raises it: no interactive authorization is started and the token store is
  left as it was.
\<close>

theorem get_drive_refresh_failure:
  "fs w (CREDENTIALS_FILE E) \<noteq> None \<Longrightarrow> fs w (TOKEN_FILE E) = Some (Pickled c) \<Longrightarrow>
   \<not> valid c \<Longrightarrow> expired c \<Longrightarrow> truthy (refresh_token c) \<Longrightarrow> refresh E c = Inl e \<Longrightarrow>
   get_drive E w =
     (Inl e,
      w\<lparr>trace := trace w @
         [Print ''Starting authentication process...'',
          Print (''credentials.json found at '' @ CREDENTIALS_FILE E),
          Print ''Loading existing token...'',
          Print ''Refreshing expired token...'',
          Refresh c (Inl e),
          Print (''ERROR in get_drive: '' @ str e)]\<rparr>)"
  by (auto simp: get_drive_defs io_defs)

theorem get_drive_refresh_failure_witness:
  "fs w_expired (CREDENTIALS_FILE E_refresh_fails) \<noteq> None \<and>
   fs w_expired (TOKEN_FILE E_refresh_fails) = Some (Pickled c_expired) \<and>
   \<not> valid c_expired \<and> expired c_expired \<and> truthy (refresh_token c_expired) \<and>
   refresh E_refresh_fails c_expired = Inl (Exn ''RefreshError'' ''invalid_grant'') \<and>
   get_drive E_refresh_fails w_expired =
     (Inl (Exn ''RefreshError'' ''invalid_grant''),
      w_expired\<lparr>trace :=
         [Print ''Starting authentication process...'',
          Print ''credentials.json found at /app/credentials.json'',
          Print ''Loading existing token...'',
          Print ''Refreshing expired token...'',
          Refresh c_expired (Inl (Exn ''RefreshError'' ''invalid_grant'')),
          Print ''ERROR in get_drive: invalid_grant'']\<rparr>)"
  using get_drive_refresh_failure [of w_expired E_refresh_fails c_expired "Exn ''RefreshError'' ''invalid_grant''"]
  by (simp add: fixture_defs)

theorem get_drive_no_fall_through_counterexample:
  "fs w_expired (TOKEN_FILE E_refresh_fails) = Some (Pickled c_expired) \<and>
   expired c_expired \<and> refresh_token c_expired = Some ''1//r'' \<and>
   refresh E_refresh_fails c_expired = Inl (Exn ''RefreshError'' ''invalid_grant'') \<and>
   oauth_flow E_refresh_fails (CREDENTIALS_FILE E_refresh_fails) SCOPES = Inr c_new \<and>
   fst (get_drive E_refresh_fails w_expired) = Inl (Exn ''RefreshError'' ''invalid_grant'') \<and>
   filter is_flow (trace (snd (get_drive E_refresh_fails w_expired))) = [] \<and>
   fs (snd (get_drive E_refresh_fails w_expired)) = fs w_expired"
  by (simp add: get_drive_defs io_defs fixture_defs)

section \<open>Upload\<close>

text \<open>
  Claim C4, as amended. \<^verbatim>\<open>upload_file\<close> calls \<^verbatim>\<open>get_drive\<close> first and tests
  the path after it. When the handle is acquired and the path does not exist at the test,
  the invocation raises FileNotFoundError \<^verbatim>\<open>File not found: <path>\<close> and sends no
  request to the storage service. When the acquisition fails, its exception is the one
  raised. A path other than the token store that is absent before the invocation is absent
  at the test.
\<close>

theorem upload_file_missing_path:
  "(get_drive E w = (Inr h, w1) \<and> fs w1 file_path = None \<longrightarrow>
      upload_file E file_path file_name parent_folder_id w =
        (Inl (Exn ''FileNotFoundError'' (''File not found: '' @ file_path)),
         w1\<lparr>trace := trace w1 @ [Print (''ERROR in upload_file: File not found: '' @ file_path)]\<rparr>) \<and>
      requests (new_events w (snd (upload_file E file_path file_name parent_folder_id w))) = []) \<and>
   (get_drive E w = (Inl e, w1) \<longrightarrow>
      upload_file E file_path file_name parent_folder_id w =
        (Inl e, w1\<lparr>trace := trace w1 @ [Print (''ERROR in upload_file: '' @ str e)]\<rparr>)) \<and>
   (get_drive E w = (r, w1) \<and> fs w file_path = None \<and> file_path \<noteq> TOKEN_FILE E \<longrightarrow>
      fs w1 file_path = None)"
proof (intro conjI impI)
  assume a: "get_drive E w = (Inr h, w1) \<and> fs w1 file_path = None"
  then show u: "upload_file E file_path file_name parent_folder_id w =
        (Inl (Exn ''FileNotFoundError'' (''File not found: '' @ file_path)),
         w1\<lparr>trace := trace w1 @ [Print (''ERROR in upload_file: File not found: '' @ file_path)]\<rparr>)"
    by (simp add: upload_file_def try_log_def bind_def os_path_exists_def raise_def)
  from a obtain evs where "trace w1 = trace w @ evs" "list_all auth_event evs"
    using get_drive_trace by blast
  then show "requests (new_events w (snd (upload_file E file_path file_name parent_folder_id w))) = []"
    by (simp add: u new_events_def requests_append requests_auth)
next
  assume "get_drive E w = (Inl e, w1)"
  then show "upload_file E file_path file_name parent_folder_id w =
        (Inl e, w1\<lparr>trace := trace w1 @ [Print (''ERROR in upload_file: '' @ str e)]\<rparr>)"
    by (simp add: upload_file_def try_log_def bind_def)
next
  assume "get_drive E w = (r, w1) \<and> fs w file_path = None \<and> file_path \<noteq> TOKEN_FILE E"
  then show "fs w1 file_path = None" using get_drive_fs by metis
qed

theorem upload_file_missing_path_witness:
  "get_drive E0 w_expired = (Inr (Service ''drive'' ''v3'' c_fresh), snd (get_drive E0 w_expired)) \<and>
   fs w_expired ''/tmp/missing.txt'' = None \<and> ''/tmp/missing.txt'' \<noteq> TOKEN_FILE E0 \<and>
   fs (snd (get_drive E0 w_expired)) ''/tmp/missing.txt'' = None \<and>
   fst (upload_file E0 ''/tmp/missing.txt'' None None w_expired) =
     Inl (Exn ''FileNotFoundError'' ''File not found: /tmp/missing.txt'') \<and>
   requests (new_events w_expired (snd (upload_file E0 ''/tmp/missing.txt'' None None w_expired))) = [] \<and>
   get_drive E_refresh_fails w_expired =
     (Inl (Exn ''RefreshError'' ''invalid_grant''), snd (get_drive E_refresh_fails w_expired)) \<and>
   fst (upload_file E_refresh_fails ''/tmp/missing.txt'' None None w_expired) =
     Inl (Exn ''RefreshError'' ''invalid_grant'')"
proof -
  have 1: "get_drive E0 w_expired = (Inr (Service ''drive'' ''v3'' c_fresh), snd (get_drive E0 w_expired))"
    by (simp add: get_drive_defs io_defs fixture_defs)
  have 2: "fs w_expired ''/tmp/missing.txt'' = None \<and> ''/tmp/missing.txt'' \<noteq> TOKEN_FILE E0"
    by (simp add: fixture_defs)
  have 3: "get_drive E_refresh_fails w_expired =
     (Inl (Exn ''RefreshError'' ''invalid_grant''), snd (get_drive E_refresh_fails w_expired))"
    by (simp add: get_drive_defs io_defs fixture_defs)
  note T = upload_file_missing_path [of E0 w_expired "Service ''drive'' ''v3'' c_fresh"
      "snd (get_drive E0 w_expired)" "''/tmp/missing.txt''" None None
      "Exn ''RefreshError'' ''invalid_grant''" "Inr (Service ''drive'' ''v3'' c_fresh)"]
  note U = upload_file_missing_path [of E_refresh_fails w_expired "Service ''drive'' ''v3'' c_fresh"
      "snd (get_drive E_refresh_fails w_expired)" "''/tmp/missing.txt''" None None
      "Exn ''RefreshError'' ''invalid_grant''" "Inl (Exn ''RefreshError'' ''invalid_grant'')"]
  from T 1 2 have 4: "fs (snd (get_drive E0 w_expired)) ''/tmp/missing.txt'' = None"
    by blast
  from T 1 4 have 5: "upload_file E0 ''/tmp/missing.txt'' None None w_expired =
        (Inl (Exn ''FileNotFoundError'' (''File not found: '' @ ''/tmp/missing.txt'')),
         (snd (get_drive E0 w_expired))\<lparr>trace := trace (snd (get_drive E0 w_expired)) @
            [Print (''ERROR in upload_file: File not found: '' @ ''/tmp/missing.txt'')]\<rparr>)"
    and 6: "requests (new_events w_expired (snd (upload_file E0 ''/tmp/missing.txt'' None None w_expired))) = []"
    by blast+
  from U 3 have 7: "upload_file E_refresh_fails ''/tmp/missing.txt'' None None w_expired =
        (Inl (Exn ''RefreshError'' ''invalid_grant''),
         (snd (get_drive E_refresh_fails w_expired))\<lparr>trace := trace (snd (get_drive E_refresh_fails w_expired)) @
            [Print (''ERROR in upload_file: '' @ str (Exn ''RefreshError'' ''invalid_grant''))]\<rparr>)"
    by blast
  have 8: "fst (upload_file E0 ''/tmp/missing.txt'' None None w_expired) =
     Inl (Exn ''FileNotFoundError'' ''File not found: /tmp/missing.txt'')"
    by (simp add: 5)
  have 9: "fst (upload_file E_refresh_fails ''/tmp/missing.txt'' None None w_expired) =
     Inl (Exn ''RefreshError'' ''invalid_grant'')"
    by (simp add: 7)
  from 1 2 3 4 6 8 9 show ?thesis by blast
qed

theorem upload_file_acquires_first_counterexample:
  "fs w_expired ''/tmp/missing.txt'' = None \<and>
   fst (upload_file E0 ''/tmp/missing.txt'' None None w_expired) =
     Inl (Exn ''FileNotFoundError'' ''File not found: /tmp/missing.txt'') \<and>
   filter remote (trace (snd (upload_file E0 ''/tmp/missing.txt'' None None w_expired))) =
     [Refresh c_expired (Inr c_fresh)] \<and>
   fst (upload_file E_refresh_fails ''/tmp/missing.txt'' None None w_expired) =
     Inl (Exn ''RefreshError'' ''invalid_grant'')"
  by (simp add: upload_file_def get_drive_defs io_defs fixture_defs)

section \<open>Search\<close>

text \<open>
  Claim C6. For every search term and every \<open>max_results\<close>: once the handle is
  acquired, \<^verbatim>\<open>search_drive_files\<close> sends exactly one request to the storage service,
  the list request whose filter is \<^verbatim>\<open>name contains '<search_term>'\<close> and whose page
  size is \<open>max_results\<close>. It returns the \<^verbatim>\<open>files\<close> list of the answer as it is,
  so when the page the service answers with has at most \<open>max_results\<close> records, the
  returned sequence has. The witness is \<^verbatim>\<open>search_drive_files("report", 5)\<close>.
\<close>

theorem search_drive_files_one_list_request:
  assumes q: "query = Request ''files.list''
              [(''q'', PStr (''name contains '' @ [CHR 0x27] @ search_term @ [CHR 0x27])),
               (''pageSize'', PInt max_results), (''fields'', PStr LIST_FIELDS)]"
    and acq: "get_drive E w = (Inr h, w1)"
  shows "requests (new_events w (snd (search_drive_files E search_term max_results w))) = [query] \<and>
     (\<forall>results files. api E h query = Inr results \<and> dict_get results ''files'' (PList []) = PList files
        \<longrightarrow> fst (search_drive_files E search_term max_results w) = Inr (PList files)) \<and>
     ((\<forall>results files. api E h query = Inr results \<and> dict_get results ''files'' (PList []) = PList files
        \<longrightarrow> int (length files) \<le> max_results)
      \<longrightarrow> (\<forall>files. fst (search_drive_files E search_term max_results w) = Inr (PList files)
        \<longrightarrow> int (length files) \<le> max_results))"
proof (intro conjI allI impI)
  from search_after_acquire [OF acq, of search_term max_results] obtain evs
    where "trace (snd (search_drive_files E search_term max_results w)) = trace w1 @ evs"
      and "requests evs = [query]" unfolding q by blast
  then show "requests (new_events w (snd (search_drive_files E search_term max_results w))) = [query]"
    using requests_after_acquire [OF acq] by simp
next
  fix results files
  assume "api E h query = Inr results \<and> dict_get results ''files'' (PList []) = PList files"
  then show "fst (search_drive_files E search_term max_results w) = Inr (PList files)"
    using acq unfolding q by (simp add: search_drive_files_def io_defs search_query_def)
next
  fix files
  assume page: "\<forall>results files. api E h query = Inr results \<and> dict_get results ''files'' (PList []) = PList files
        \<longrightarrow> int (length files) \<le> max_results"
    and res: "fst (search_drive_files E search_term max_results w) = Inr (PList files)"
  from search_result [OF acq res] obtain results where "api E h query = Inr results"
      "PList files = dict_get results ''files'' (PList [])" unfolding q by blast
  with page show "int (length files) \<le> max_results" by metis
qed

theorem search_drive_files_one_list_request_witness:
  "get_drive E0 w_valid = (Inr (Service ''drive'' ''v3'' c_valid), snd (get_drive E0 w_valid)) \<and>
   requests (new_events w_valid (snd (search_drive_files E0 ''report'' 5 w_valid))) =
     [Request ''files.list''
        [(''q'', PStr (''name contains '' @ [CHR 0x27] @ ''report'' @ [CHR 0x27])),
         (''pageSize'', PInt 5), (''fields'', PStr LIST_FIELDS)]] \<and>
   fst (search_drive_files E0 ''report'' 5 w_valid) =
     Inr (PList [PDict [(''id'', PStr ''f1''), (''name'', PStr ''report.txt'')]]) \<and>
   int (length [PDict [(''id'', PStr ''f1''), (''name'', PStr ''report.txt'')]]) \<le> 5"
proof -
  have 1: "get_drive E0 w_valid = (Inr (Service ''drive'' ''v3'' c_valid), snd (get_drive E0 w_valid))"
    by (simp add: get_drive_defs io_defs fixture_defs)
  have 2: "api E0 (Service ''drive'' ''v3'' c_valid) (Request ''files.list''
        [(''q'', PStr (''name contains '' @ [CHR 0x27] @ ''report'' @ [CHR 0x27])),
         (''pageSize'', PInt 5), (''fields'', PStr LIST_FIELDS)]) =
       Inr [(''files'', PList [PDict [(''id'', PStr ''f1''), (''name'', PStr ''report.txt'')]])]"
    by (simp add: E0_def api0_def)
  have 3: "dict_get [(''files'', PList [PDict [(''id'', PStr ''f1''), (''name'', PStr ''report.txt'')]])]
       ''files'' (PList []) = PList [PDict [(''id'', PStr ''f1''), (''name'', PStr ''report.txt'')]]"
    by (simp add: dict_get_def)
  have 4: "\<forall>results files. api E0 (Service ''drive'' ''v3'' c_valid) (Request ''files.list''
        [(''q'', PStr (''name contains '' @ [CHR 0x27] @ ''report'' @ [CHR 0x27])),
         (''pageSize'', PInt 5), (''fields'', PStr LIST_FIELDS)]) = Inr results \<and>
       dict_get results ''files'' (PList []) = PList files \<longrightarrow> int (length files) \<le> 5"
    by (auto simp: E0_def api0_def dict_get_def)
  note T = search_drive_files_one_list_request [OF refl 1, of "''report''" 5]
  from T 2 3 have 5: "fst (search_drive_files E0 ''report'' 5 w_valid) =
     Inr (PList [PDict [(''id'', PStr ''f1''), (''name'', PStr ''report.txt'')]])" by blast
  from T 4 5 have 6: "int (length [PDict [(''id'', PStr ''f1''), (''name'', PStr ''report.txt'')]]) \<le> 5"
    by blast
  from T 1 5 6 show ?thesis by blast
qed

text \<open>
  Claim C8. Whatever the search term is, the only request \<^verbatim>\<open>search_drive_files\<close> ever
  sends carries the filter \<^verbatim>\<open>name contains '\<close> followed by the term as it is and a
  closing quote: nothing is escaped. So when the term holds a quote character, the quoted
  operand of the filter ends inside the term, at its first quote, and the rest of the term
  stands in the filter as filter syntax.
\<close>

theorem search_term_not_escaped:
  "set (requests (new_events w (snd (search_drive_files E search_term max_results w))))
     \<subseteq> {Request ''files.list''
          [(''q'', PStr (''name contains '' @ [CHR 0x27] @ search_term @ [CHR 0x27])),
           (''pageSize'', PInt max_results), (''fields'', PStr LIST_FIELDS)]} \<and>
   search_query search_term = ''name contains '' @ [CHR 0x27] @ search_term @ [CHR 0x27] \<and>
   (CHR 0x27 \<notin> set search_term \<longrightarrow> upto_next_quote (search_query search_term) = search_term) \<and>
   (search_term = a @ [CHR 0x27] @ b \<and> CHR 0x27 \<notin> set a \<longrightarrow>
      search_query search_term = ''name contains '' @ [CHR 0x27] @ a @ [CHR 0x27] @ b @ [CHR 0x27] \<and>
      upto_next_quote (search_query search_term) = a \<and> a \<noteq> search_term)"
proof (intro conjI impI)
  obtain r w1 where g: "get_drive E w = (r, w1)" by (cases "get_drive E w")
  show "set (requests (new_events w (snd (search_drive_files E search_term max_results w))))
     \<subseteq> {Request ''files.list''
          [(''q'', PStr (''name contains '' @ [CHR 0x27] @ search_term @ [CHR 0x27])),
           (''pageSize'', PInt max_results), (''fields'', PStr LIST_FIELDS)]}"
  proof (cases r)
    case (Inl e)
    with g have "get_drive E w = (Inl e, w1)" by simp
    then have "requests (new_events w (snd (search_drive_files E search_term max_results w))) = []"
      unfolding search_drive_files_def by (rule acquire_fails_requests)
    then show ?thesis by simp
  next
    case (Inr h)
    with g search_after_acquire [of E w h w1 search_term max_results] obtain evs
      where "trace (snd (search_drive_files E search_term max_results w)) = trace w1 @ evs"
        and "requests evs = [Request ''files.list''
              [(''q'', PStr (''name contains '' @ [CHR 0x27] @ search_term @ [CHR 0x27])),
               (''pageSize'', PInt max_results), (''fields'', PStr LIST_FIELDS)]]" by blast
    then show ?thesis using requests_after_acquire [OF g] by simp
  qed
next
  show "search_query search_term = ''name contains '' @ [CHR 0x27] @ search_term @ [CHR 0x27]"
    by (simp add: search_query_def)
next
  assume "CHR 0x27 \<notin> set search_term"
  then show "upto_next_quote (search_query search_term) = search_term"
    using upto_next_quote_query [of search_term "[]"] by (simp add: search_query_def)
next
  assume a: "search_term = a @ [CHR 0x27] @ b \<and> CHR 0x27 \<notin> set a"
  then show "search_query search_term = ''name contains '' @ [CHR 0x27] @ a @ [CHR 0x27] @ b @ [CHR 0x27]"
    by (simp add: search_query_def)
  from a show "upto_next_quote (search_query search_term) = a"
    using upto_next_quote_query [of a "b @ [CHR 0x27]"] by (simp add: search_query_def)
  from a show "a \<noteq> search_term" by auto
qed

theorem search_term_not_escaped_witness:
  "requests (new_events w_valid (snd (search_drive_files E0 ''x' or name contains 'y'' 10 w_valid))) =
     [Request ''files.list''
        [(''q'', PStr (''name contains 'x' or name contains 'y'' @ [CHR 0x27])),
         (''pageSize'', PInt 10), (''fields'', PStr LIST_FIELDS)]] \<and>
   ''x' or name contains 'y'' = ''x'' @ [CHR 0x27] @ '' or name contains 'y'' \<and>
   CHR 0x27 \<notin> set ''x'' \<and>
   upto_next_quote (search_query ''x' or name contains 'y'') = ''x''"
  using search_term_not_escaped [of w_valid E0 "''x' or name contains 'y''" 10 "''x''" "'' or name contains 'y''"]
  by (simp add: search_drive_files_def search_query_def get_drive_defs io_defs fixture_defs
      api0_def dict_get_def new_events_def upto_next_quote_def str_nat.simps)

section \<open>Move\<close>

text \<open>
  Claim C5. \<^verbatim>\<open>move_file\<close> never sends more than one update request. Once the handle
  is acquired and the get request has returned the resource with its parents, it sends
  exactly two requests, that get and then one update whose \<^verbatim>\<open>addParents\<close> is
  \<open>new_parent_folder_id\<close>, whose \<^verbatim>\<open>removeParents\<close> is the parents read, joined
  with commas, and which asks for the fields \<^verbatim>\<open>id, name, parents, webViewLink\<close>; the
  result is the answer of the service to this update, as it is (or its exception).
\<close>

theorem move_file_one_update:
  "length (filter (\<lambda>r. api_method r = ''files.update'')
      (requests (new_events w (snd (move_file E file_id new_parent_folder_id w))))) \<le> 1 \<and>
   (get_drive E w = (Inr h, w1) \<and>
    api E h (Request ''files.get'' [(''fileId'', PStr file_id), (''fields'', PStr ''parents'')]) = Inr file \<and>
    dict_get file ''parents'' (PList []) = PList (map PStr parents) \<and>
    update = Request ''files.update''
          [(''fileId'', PStr file_id), (''addParents'', PStr new_parent_folder_id),
           (''removeParents'', PStr (join '','' parents)),
           (''fields'', PStr ''id, name, parents, webViewLink'')] \<longrightarrow>
    requests (new_events w (snd (move_file E file_id new_parent_folder_id w))) =
      [Request ''files.get'' [(''fileId'', PStr file_id), (''fields'', PStr ''parents'')], update] \<and>
    fst (move_file E file_id new_parent_folder_id w) =
      (case api E h update of Inl e \<Rightarrow> Inl e | Inr d \<Rightarrow> Inr (PDict d)))"
proof (intro conjI impI)
  obtain r w1 where g: "get_drive E w = (r, w1)" by (cases "get_drive E w")
  show "length (filter (\<lambda>r. api_method r = ''files.update'')
      (requests (new_events w (snd (move_file E file_id new_parent_folder_id w))))) \<le> 1"
  proof (cases r)
    case (Inl e)
    with g have "get_drive E w = (Inl e, w1)" by simp
    then have "requests (new_events w (snd (move_file E file_id new_parent_folder_id w))) = []"
      unfolding move_file_def by (rule acquire_fails_requests)
    then show ?thesis by simp
  next
    case (Inr h)
    with g move_after_acquire [of E w h w1 file_id new_parent_folder_id] obtain evs
      where "trace (snd (move_file E file_id new_parent_folder_id w)) = trace w1 @ evs"
        and "length (filter (\<lambda>r. api_method r = ''files.update'') (requests evs)) \<le> 1" by blast
    then show ?thesis using requests_after_acquire [OF g] by simp
  qed
next
  assume a: "get_drive E w = (Inr h, w1) \<and>
    api E h (Request ''files.get'' [(''fileId'', PStr file_id), (''fields'', PStr ''parents'')]) = Inr file \<and>
    dict_get file ''parents'' (PList []) = PList (map PStr parents) \<and>
    update = Request ''files.update''
          [(''fileId'', PStr file_id), (''addParents'', PStr new_parent_folder_id),
           (''removeParents'', PStr (join '','' parents)),
           (''fields'', PStr ''id, name, parents, webViewLink'')]"
  then have j: "py_join '','' (dict_get file ''parents'' (PList [])) = Inr (join '','' parents)"
    by (simp add: the_strs_map)
  from a have g: "get_drive E w = (Inr h, w1)" by simp
  from a move_after_get [OF g _ j, of file_id new_parent_folder_id] obtain evs
    where "trace (snd (move_file E file_id new_parent_folder_id w)) = trace w1 @ evs"
      and "requests evs =
       [Request ''files.get'' [(''fileId'', PStr file_id), (''fields'', PStr ''parents'')], update]"
    by blast
  then show "requests (new_events w (snd (move_file E file_id new_parent_folder_id w))) =
      [Request ''files.get'' [(''fileId'', PStr file_id), (''fields'', PStr ''parents'')], update]"
    using requests_after_acquire [OF g] by simp
  from a j show "fst (move_file E file_id new_parent_folder_id w) =
      (case api E h update of Inl e \<Rightarrow> Inl e | Inr d \<Rightarrow> Inr (PDict d))"
    by (simp add: move_file_def io_defs split: sum.splits)
qed

theorem move_file_one_update_witness:
  "get_drive E0 w_valid = (Inr (Service ''drive'' ''v3'' c_valid), snd (get_drive E0 w_valid)) \<and>
   api E0 (Service ''drive'' ''v3'' c_valid)
     (Request ''files.get'' [(''fileId'', PStr ''f1''), (''fields'', PStr ''parents'')]) =
     Inr [(''parents'', PList [PStr ''p1'', PStr ''p2''])] \<and>
   requests (new_events w_valid (snd (move_file E0 ''f1'' ''p3'' w_valid))) =
     [Request ''files.get'' [(''fileId'', PStr ''f1''), (''fields'', PStr ''parents'')],
      Request ''files.update''
        [(''fileId'', PStr ''f1''), (''addParents'', PStr ''p3''), (''removeParents'', PStr ''p1,p2''),
         (''fields'', PStr ''id, name, parents, webViewLink'')]] \<and>
   fst (move_file E0 ''f1'' ''p3'' w_valid) =
     Inr (PDict [(''id'', PStr ''f1''), (''name'', PStr ''report.txt''),
                 (''parents'', PList [PStr ''p3'']), (''webViewLink'', PStr ''https://drive/f1'')])"
proof -
  have 1: "get_drive E0 w_valid = (Inr (Service ''drive'' ''v3'' c_valid), snd (get_drive E0 w_valid))"
    by (simp add: get_drive_defs io_defs fixture_defs)
  have 2: "api E0 (Service ''drive'' ''v3'' c_valid)
     (Request ''files.get'' [(''fileId'', PStr ''f1''), (''fields'', PStr ''parents'')]) =
     Inr [(''parents'', PList [PStr ''p1'', PStr ''p2''])]"
    by (simp add: E0_def api0_def)
  have 3: "dict_get [(''parents'', PList [PStr ''p1'', PStr ''p2''])] ''parents'' (PList []) =
     PList (map PStr [''p1'', ''p2''])"
    by (simp add: dict_get_def)
  have 4: "join '','' [''p1'', ''p2''] = ''p1,p2''" by simp
  have 5: "api E0 (Service ''drive'' ''v3'' c_valid) (Request ''files.update''
        [(''fileId'', PStr ''f1''), (''addParents'', PStr ''p3''), (''removeParents'', PStr ''p1,p2''),
         (''fields'', PStr ''id, name, parents, webViewLink'')]) =
     Inr [(''id'', PStr ''f1''), (''name'', PStr ''report.txt''),
                 (''parents'', PList [PStr ''p3'']), (''webViewLink'', PStr ''https://drive/f1'')]"
    by (simp add: E0_def api0_def)
  note T = move_file_one_update [of w_valid E0 "''f1''" "''p3''" "Service ''drive'' ''v3'' c_valid"
      "snd (get_drive E0 w_valid)" "[(''parents'', PList [PStr ''p1'', PStr ''p2''])]" "[''p1'', ''p2'']"
      "Request ''files.update''
        [(''fileId'', PStr ''f1''), (''addParents'', PStr ''p3''), (''removeParents'', PStr ''p1,p2''),
         (''fields'', PStr ''id, name, parents, webViewLink'')]"]
  from T 1 2 3 4 have 6: "requests (new_events w_valid (snd (move_file E0 ''f1'' ''p3'' w_valid))) =
     [Request ''files.get'' [(''fileId'', PStr ''f1''), (''fields'', PStr ''parents'')],
      Request ''files.update''
        [(''fileId'', PStr ''f1''), (''addParents'', PStr ''p3''), (''removeParents'', PStr ''p1,p2''),
         (''fields'', PStr ''id, name, parents, webViewLink'')]]"
    and 7: "fst (move_file E0 ''f1'' ''p3'' w_valid) =
      (case api E0 (Service ''drive'' ''v3'' c_valid) (Request ''files.update''
        [(''fileId'', PStr ''f1''), (''addParents'', PStr ''p3''), (''removeParents'', PStr ''p1,p2''),
         (''fields'', PStr ''id, name, parents, webViewLink'')]) of Inl e \<Rightarrow> Inl e | Inr d \<Rightarrow> Inr (PDict d))"
    by simp_all
  from 7 5 have 8: "fst (move_file E0 ''f1'' ''p3'' w_valid) =
     Inr (PDict [(''id'', PStr ''f1''), (''name'', PStr ''report.txt''),
                 (''parents'', PList [PStr ''p3'']), (''webViewLink'', PStr ''https://drive/f1'')])"
    by simp
  from 1 2 6 8 show ?thesis by blast
qed

section \<open>Optional string arguments\<close>

text \<open>
  Claim C9. An optional string argument is tested by truthiness, so the empty string does
  what the omitted argument does: the invocations are the same computation. With
  \<^verbatim>\<open>query=""\<close> the only request \<^verbatim>\<open>list_drive_files\<close> sends has no \<^verbatim>\<open>q\<close>;
  with \<^verbatim>\<open>parent_folder_id=""\<close> the body that \<^verbatim>\<open>create_folder\<close> and
  \<^verbatim>\<open>upload_file\<close> send has no \<^verbatim>\<open>parents\<close>; with \<^verbatim>\<open>file_name=""\<close> the name
  that \<^verbatim>\<open>upload_file\<close> sends is the basename of \<^verbatim>\<open>file_path\<close>.
\<close>

theorem empty_string_is_omitted:
  "run E (ListDriveFiles max_results (Some '''')) = run E (ListDriveFiles max_results None) \<and>
   set (requests (new_events w (snd (list_drive_files E n '''' w))))
     \<subseteq> {Request ''files.list'' [(''pageSize'', PInt n), (''fields'', PStr LIST_FIELDS)]} \<and>
   create_folder E folder_name (Some '''') = create_folder E folder_name None \<and>
   set (requests (new_events w (snd (create_folder E folder_name (Some '''') w))))
     \<subseteq> {Request ''files.create''
        [(''body'', PDict [(''name'', PStr folder_name),
                           (''mimeType'', PStr ''application/vnd.google-apps.folder'')]),
         (''fields'', PStr ''id, name, webViewLink'')]} \<and>
   upload_file E file_path file_name (Some '''') = upload_file E file_path file_name None \<and>
   upload_file E file_path (Some '''') parent_folder_id = upload_file E file_path None parent_folder_id \<and>
   set (requests (new_events w (snd (upload_file E file_path (Some '''') (Some '''') w))))
     \<subseteq> {Request ''files.create''
        [(''body'', PDict [(''name'', PStr (os_path_basename file_path))]),
         (''media_body'', PMedia file_path True),
         (''fields'', PStr ''id, name, webViewLink'')]}"
proof (intro conjI)
  show "run E (ListDriveFiles max_results (Some '''')) = run E (ListDriveFiles max_results None)"
    by simp
  show "create_folder E folder_name (Some '''') = create_folder E folder_name None"
    by (simp add: create_folder_def)
  show "upload_file E file_path file_name (Some '''') = upload_file E file_path file_name None"
    by (simp add: upload_file_def)
  show "upload_file E file_path (Some '''') parent_folder_id = upload_file E file_path None parent_folder_id"
    by (simp add: upload_file_def)
  obtain r w1 where g: "get_drive E w = (r, w1)" by (cases "get_drive E w")
  show "set (requests (new_events w (snd (list_drive_files E n '''' w))))
     \<subseteq> {Request ''files.list'' [(''pageSize'', PInt n), (''fields'', PStr LIST_FIELDS)]}"
  proof (cases r)
    case (Inl e)
    with g have "get_drive E w = (Inl e, w1)" by simp
    then have "requests (new_events w (snd (list_drive_files E n '''' w))) = []"
      unfolding list_drive_files_def by (rule acquire_fails_requests)
    then show ?thesis by simp
  next
    case (Inr h)
    with g list_after_acquire [of E w h w1 n] obtain evs
      where "trace (snd (list_drive_files E n '''' w)) = trace w1 @ evs"
        and "requests evs = [Request ''files.list'' [(''pageSize'', PInt n), (''fields'', PStr LIST_FIELDS)]]"
      by blast
    then show ?thesis using requests_after_acquire [OF g] by simp
  qed
  show "set (requests (new_events w (snd (create_folder E folder_name (Some '''') w))))
     \<subseteq> {Request ''files.create''
        [(''body'', PDict [(''name'', PStr folder_name),
                           (''mimeType'', PStr ''application/vnd.google-apps.folder'')]),
         (''fields'', PStr ''id, name, webViewLink'')]}"
  proof (cases r)
    case (Inl e)
    with g have "get_drive E w = (Inl e, w1)" by simp
    then have "requests (new_events w (snd (create_folder E folder_name (Some '''') w))) = []"
      unfolding create_folder_def by (rule acquire_fails_requests)
    then show ?thesis by simp
  next
    case (Inr h)
    with g create_after_acquire [of E w h w1 folder_name] obtain evs
      where "trace (snd (create_folder E folder_name (Some '''') w)) = trace w1 @ evs"
        and "requests evs = [Request ''files.create''
        [(''body'', PDict [(''name'', PStr folder_name),
                           (''mimeType'', PStr ''application/vnd.google-apps.folder'')]),
         (''fields'', PStr ''id, name, webViewLink'')]]"
      by blast
    then show ?thesis using requests_after_acquire [OF g] by simp
  qed
  show "set (requests (new_events w (snd (upload_file E file_path (Some '''') (Some '''') w))))
     \<subseteq> {Request ''files.create''
        [(''body'', PDict [(''name'', PStr (os_path_basename file_path))]),
         (''media_body'', PMedia file_path True),
         (''fields'', PStr ''id, name, webViewLink'')]}"
  proof (cases r)
    case (Inl e)
    with g have "get_drive E w = (Inl e, w1)" by simp
    then have "requests (new_events w (snd (upload_file E file_path (Some '''') (Some '''') w))) = []"
      unfolding upload_file_def by (rule acquire_fails_requests)
    then show ?thesis by simp
  next
    case (Inr h)
    with g upload_after_acquire [of E w h w1 file_path] obtain evs
      where "trace (snd (upload_file E file_path (Some '''') (Some '''') w)) = trace w1 @ evs"
        and "set (requests evs) \<subseteq> {Request ''files.create''
        [(''body'', PDict [(''name'', PStr (os_path_basename file_path))]),
         (''media_body'', PMedia file_path True),
         (''fields'', PStr ''id, name, webViewLink'')]}"
      by blast
    then show ?thesis using requests_after_acquire [OF g] by simp
  qed
qed

theorem empty_string_is_omitted_witness:
  "requests (new_events w_with_report (snd (run E0 (ListDriveFiles (Some 3) (Some '''')) w_with_report))) =
     [Request ''files.list'' [(''pageSize'', PInt 3), (''fields'', PStr LIST_FIELDS)]] \<and>
   run E0 (ListDriveFiles (Some 3) (Some '''')) w_with_report =
     run E0 (ListDriveFiles (Some 3) None) w_with_report \<and>
   requests (new_events w_with_report (snd (create_folder E0 ''Reports'' (Some '''') w_with_report))) =
     [Request ''files.create''
        [(''body'', PDict [(''name'', PStr ''Reports''),
                           (''mimeType'', PStr ''application/vnd.google-apps.folder'')]),
         (''fields'', PStr ''id, name, webViewLink'')]] \<and>
   create_folder E0 ''Reports'' (Some '''') w_with_report = create_folder E0 ''Reports'' None w_with_report \<and>
   requests (new_events w_with_report
       (snd (upload_file E0 ''/home/u/report.txt'' (Some '''') (Some '''') w_with_report))) =
     [Request ''files.create''
        [(''body'', PDict [(''name'', PStr ''report.txt'')]),
         (''media_body'', PMedia ''/home/u/report.txt'' True),
         (''fields'', PStr ''id, name, webViewLink'')]] \<and>
   upload_file E0 ''/home/u/report.txt'' (Some '''') (Some '''') w_with_report =
     upload_file E0 ''/home/u/report.txt'' None None w_with_report"
  using empty_string_is_omitted [of E0 "Some 3" w_with_report 3 "''Reports''" "''/home/u/report.txt''"
      "Some ''''" "Some ''''"]
    empty_string_is_omitted [of E0 "Some 3" w_with_report 3 "''Reports''" "''/home/u/report.txt''"
      "None" "None"]
  by (simp add: list_drive_files_def create_folder_def upload_file_def get_drive_defs io_defs
      fixture_defs w_with_report_def api0_def dict_get_def new_events_def os_path_basename_def
      media_file_upload_def str_nat.simps)

section \<open>Download\<close>

text \<open>
  Claim C10. Once the handle is acquired, \<^verbatim>\<open>download_file\<close> opens the destination
  for writing before it fetches any chunk: the file is created or truncated, and when the
  open fails no chunk is fetched. Every fetched chunk is written at once. When a fetch
  fails, its exception is raised and the destination keeps the bytes of the chunks fetched
  before it (nothing is removed or restored); the result
  \<^verbatim>\<open>{"success": True, "path": destination_path}\<close> is returned exactly when no fetch
  fails, and then the destination holds all the bytes.
\<close>

theorem download_file_not_atomic:
  assumes acq: "get_drive E w = (Inr h, w1)"
    and cs: "cs = media E h file_id"
    and w': "w' = snd (download_file E file_id destination_path w)"
  shows "(unwritable E destination_path = None \<longrightarrow>
           (\<exists>auth. trace w1 = trace w @ auth \<and> list_all auth_event auth) \<and>
           trace w' = trace w1 @ OpenWb destination_path None # chunk_events cs @
             [case chunk_error cs of
                Some e \<Rightarrow> Print (''ERROR in download_file: '' @ str e)
              | None \<Rightarrow> Print (''Downloaded file to: '' @ destination_path)] \<and>
           fs w' destination_path = Some (Data (chunk_bytes cs)) \<and>
           fst (download_file E file_id destination_path w) =
             (case chunk_error cs of
                Some e \<Rightarrow> Inl e
              | None \<Rightarrow> Inr (PDict [(''success'', PBool True), (''path'', PStr destination_path)]))) \<and>
         (\<forall>e. unwritable E destination_path = Some e \<longrightarrow>
           fst (download_file E file_id destination_path w) = Inl e \<and>
           trace w' = trace w1 @ [OpenWb destination_path (Some e),
                                  Print (''ERROR in download_file: '' @ str e)] \<and>
           fs w' = fs w1)"
proof (intro conjI impI allI)
  show "\<exists>auth. trace w1 = trace w @ auth \<and> list_all auth_event auth"
    using get_drive_trace [OF acq] .
next
  assume o: "unwritable E destination_path = None"
  note d = download_after_open [OF acq o, of file_id]
  show "trace w' = trace w1 @ OpenWb destination_path None # chunk_events cs @
             [case chunk_error cs of
                Some e \<Rightarrow> Print (''ERROR in download_file: '' @ str e)
              | None \<Rightarrow> Print (''Downloaded file to: '' @ destination_path)]"
    unfolding w' cs d by (simp split: option.splits)
  show "fs w' destination_path = Some (Data (chunk_bytes cs))"
    unfolding w' cs d by (simp split: option.splits)
  show "fst (download_file E file_id destination_path w) =
             (case chunk_error cs of
                Some e \<Rightarrow> Inl e
              | None \<Rightarrow> Inr (PDict [(''success'', PBool True), (''path'', PStr destination_path)]))"
    unfolding cs d by (simp split: option.splits)
next
  fix e assume o: "unwritable E destination_path = Some e"
  note d = download_open_fails [OF acq o, of file_id]
  show "fst (download_file E file_id destination_path w) = Inl e" unfolding d by simp
  show "trace w' = trace w1 @ [OpenWb destination_path (Some e),
                                  Print (''ERROR in download_file: '' @ str e)]"
    unfolding w' d by simp
  show "fs w' = fs w1" unfolding w' d by simp
qed

theorem download_file_not_atomic_witness:
  "get_drive E_chunk_fails w_with_old_copy =
     (Inr (Service ''drive'' ''v3'' c_valid), snd (get_drive E_chunk_fails w_with_old_copy)) \<and>
   unwritable E_chunk_fails ''/home/u/out.bin'' = None \<and>
   media E_chunk_fails (Service ''drive'' ''v3'' c_valid) ''f1'' =
     More ''ab'' 50 (Failed (Exn ''HttpError'' ''503 backend error'')) \<and>
   fs w_with_old_copy ''/home/u/out.bin'' = Some (Data ''previous content'') \<and>
   fst (download_file E_chunk_fails ''f1'' ''/home/u/out.bin'' w_with_old_copy) =
     Inl (Exn ''HttpError'' ''503 backend error'') \<and>
   fs (snd (download_file E_chunk_fails ''f1'' ''/home/u/out.bin'' w_with_old_copy)) ''/home/u/out.bin'' =
     Some (Data ''ab'') \<and>
   get_drive E0 w_with_old_copy =
     (Inr (Service ''drive'' ''v3'' c_valid), snd (get_drive E0 w_with_old_copy)) \<and>
   fst (download_file E0 ''f1'' ''/home/u/out.bin'' w_with_old_copy) =
     Inr (PDict [(''success'', PBool True), (''path'', PStr ''/home/u/out.bin'')]) \<and>
   fs (snd (download_file E0 ''f1'' ''/home/u/out.bin'' w_with_old_copy)) ''/home/u/out.bin'' =
     Some (Data ''abcd'')"
proof -
  have 1: "get_drive E_chunk_fails w_with_old_copy =
     (Inr (Service ''drive'' ''v3'' c_valid), snd (get_drive E_chunk_fails w_with_old_copy))"
    by (simp add: get_drive_defs io_defs fixture_defs E_chunk_fails_def w_with_old_copy_def)
  have 2: "unwritable E_chunk_fails ''/home/u/out.bin'' = None"
    by (simp add: E_chunk_fails_def E0_def)
  have 3: "media E_chunk_fails (Service ''drive'' ''v3'' c_valid) ''f1'' =
     More ''ab'' 50 (Failed (Exn ''HttpError'' ''503 backend error''))"
    by (simp add: E_chunk_fails_def E0_def)
  have 4: "fs w_with_old_copy ''/home/u/out.bin'' = Some (Data ''previous content'')"
    by (simp add: w_with_old_copy_def)
  have 5: "get_drive E0 w_with_old_copy =
     (Inr (Service ''drive'' ''v3'' c_valid), snd (get_drive E0 w_with_old_copy))"
    by (simp add: get_drive_defs io_defs fixture_defs w_with_old_copy_def)
  have 6: "unwritable E0 ''/home/u/out.bin'' = None" "media E0 (Service ''drive'' ''v3'' c_valid) ''f1'' =
     More ''ab'' 50 (Last ''cd'' 100)"
    by (simp_all add: E0_def)
  note T = download_file_not_atomic [OF 1 refl refl, where file_id = "''f1''" and destination_path = "''/home/u/out.bin''"]
  note U = download_file_not_atomic [OF 5 refl refl, where file_id = "''f1''" and destination_path = "''/home/u/out.bin''"]
  from T 2 have 7: "fst (download_file E_chunk_fails ''f1'' ''/home/u/out.bin'' w_with_old_copy) =
     Inl (Exn ''HttpError'' ''503 backend error'')"
    and 8: "fs (snd (download_file E_chunk_fails ''f1'' ''/home/u/out.bin'' w_with_old_copy)) ''/home/u/out.bin'' =
     Some (Data ''ab'')"
    by (simp_all add: 3)
  from U 6 have 9: "fst (download_file E0 ''f1'' ''/home/u/out.bin'' w_with_old_copy) =
     Inr (PDict [(''success'', PBool True), (''path'', PStr ''/home/u/out.bin'')])"
    and 10: "fs (snd (download_file E0 ''f1'' ''/home/u/out.bin'' w_with_old_copy)) ''/home/u/out.bin'' =
     Some (Data ''abcd'')"
    by simp_all
  from 1 2 3 4 5 7 8 9 10 show ?thesis by blast
qed

section \<open>Error propagation\<close>

lemma run_keeps_discipline:
  "\<exists>evs. trace (snd (run E t w)) = trace w @ evs \<and>
         no_suppress (err (fst (run E t w))) evs \<and>
         (case fst (run E t w) of
            Inl e \<Rightarrow> evs \<noteq> [] \<and> last evs = Print (''ERROR in '' @ tool_name t @ '': '' @ str e)
          | Inr v \<Rightarrow> list_all (\<lambda>ev. failure ev = None) evs)"
proof -
  from wf_run [of E t] obtain evs where 1: "trace (snd (run E t w)) = trace w @ evs"
      and 2: "no_suppress (err (fst (run E t w))) evs"
    unfolding wf_def by blast
  from run_frame [of E t] obtain body where 3: "run E t = try_log (tool_name t) body" "wf body"
    by blast
  have "evs \<noteq> [] \<and> last evs = Print (''ERROR in '' @ tool_name t @ '': '' @ str e)"
    if "fst (run E t w) = Inl e" for e
    using try_log_last [OF 3(2), of "tool_name t" w e evs] that 1 3(1) by simp
  moreover have "list_all (\<lambda>ev. failure ev = None) evs" if "fst (run E t w) = Inr v" for v
    using 2 that by (simp add: no_suppress_clean)
  ultimately have "case fst (run E t w) of
            Inl e \<Rightarrow> evs \<noteq> [] \<and> last evs = Print (''ERROR in '' @ tool_name t @ '': '' @ str e)
          | Inr v \<Rightarrow> list_all (\<lambda>ev. failure ev = None) evs"
    by (cases "fst (run E t w)") auto
  with 1 2 show "\<exists>evs. trace (snd (run E t w)) = trace w @ evs \<and>
         no_suppress (err (fst (run E t w))) evs \<and>
         (case fst (run E t w) of
            Inl e \<Rightarrow> evs \<noteq> [] \<and> last evs = Print (''ERROR in '' @ tool_name t @ '': '' @ str e)
          | Inr v \<Rightarrow> list_all (\<lambda>ev. failure ev = None) evs)" by blast
qed

lemma get_drive_keeps_discipline:
  "\<exists>evs. trace (snd (get_drive E w)) = trace w @ evs \<and>
         no_suppress (err (fst (get_drive E w))) evs \<and>
         (case fst (get_drive E w) of
            Inl e \<Rightarrow> evs \<noteq> [] \<and> last evs = Print (''ERROR in get_drive: '' @ str e)
          | Inr h \<Rightarrow> list_all (\<lambda>ev. failure ev = None) evs)"
proof -
  from wf_get_drive [of E] obtain evs where 1: "trace (snd (get_drive E w)) = trace w @ evs"
      and 2: "no_suppress (err (fst (get_drive E w))) evs"
    unfolding wf_def by blast
  from get_drive_frame [of E] obtain body where 3: "get_drive E = try_log ''get_drive'' body" "wf body"
    by blast
  have "evs \<noteq> [] \<and> last evs = Print (''ERROR in get_drive: '' @ str e)"
    if "fst (get_drive E w) = Inl e" for e
    using try_log_last [OF 3(2), of "''get_drive''" w e evs] that 1 3(1) by simp
  moreover have "list_all (\<lambda>ev. failure ev = None) evs" if "fst (get_drive E w) = Inr h" for h
    using 2 that by (simp add: no_suppress_clean)
  ultimately have "case fst (get_drive E w) of
            Inl e \<Rightarrow> evs \<noteq> [] \<and> last evs = Print (''ERROR in get_drive: '' @ str e)
          | Inr h \<Rightarrow> list_all (\<lambda>ev. failure ev = None) evs"
    by (cases "fst (get_drive E w)") auto
  with 1 2 show "\<exists>evs. trace (snd (get_drive E w)) = trace w @ evs \<and>
         no_suppress (err (fst (get_drive E w))) evs \<and>
         (case fst (get_drive E w) of
            Inl e \<Rightarrow> evs \<noteq> [] \<and> last evs = Print (''ERROR in get_drive: '' @ str e)
          | Inr h \<Rightarrow> list_all (\<lambda>ev. failure ev = None) evs)" by blast
qed

lemmas tool_fail_defs = try_log_def bind_def ret_def raise_def lift_def execute_def print_def
  emit_def os_path_exists_def logged_def

lemma tools_raise_acquisition_failure:
  "get_drive E w = (Inl e, w1) \<longrightarrow> run E t w = logged (tool_name t) e w1 []"
  by (cases t)
    (simp_all add: logged_def acquire_fails list_drive_files_def search_drive_files_def
      create_folder_def upload_file_def delete_file_def download_file_def rename_file_def
      move_file_def get_file_info_def)

lemma get_drive_raises_missing_secret:
  "fs w (CREDENTIALS_FILE E) = None \<longrightarrow>
      get_drive E w =
        logged ''get_drive''
          (Exn ''FileNotFoundError'' (''credentials.json not found at '' @ CREDENTIALS_FILE E)) w
          [Print ''Starting authentication process...'',
           Print (''ERROR: credentials.json not found at '' @ CREDENTIALS_FILE E @ ''!'')]"
  by (simp add: get_drive_defs io_defs logged_def)

lemma get_drive_raises_load_failure:
  "fs w (CREDENTIALS_FILE E) \<noteq> None \<and> fs w (TOKEN_FILE E) = Some (Data d) \<longrightarrow>
      get_drive E w =
        logged ''get_drive'' (Exn ''UnpicklingError'' ''could not load the pickle'') w
          [Print ''Starting authentication process...'',
           Print (''credentials.json found at '' @ CREDENTIALS_FILE E),
           Print ''Loading existing token...'']"
  by (auto simp: get_drive_defs io_defs logged_def)

lemma get_drive_raises_refresh_failure:
  "fs w (CREDENTIALS_FILE E) \<noteq> None \<and> fs w (TOKEN_FILE E) = Some (Pickled c) \<and>
    \<not> valid c \<and> expired c \<and> truthy (refresh_token c) \<and> refresh E c = Inl e \<longrightarrow>
      get_drive E w =
        logged ''get_drive'' e w
          [Print ''Starting authentication process...'',
           Print (''credentials.json found at '' @ CREDENTIALS_FILE E),
           Print ''Loading existing token...'',
           Print ''Refreshing expired token...'',
           Refresh c (Inl e)]"
  by (auto simp: get_drive_defs io_defs logged_def)

lemma get_drive_raises_flow_failure:
  "fs w (CREDENTIALS_FILE E) \<noteq> None \<and> oauth_flow E (CREDENTIALS_FILE E) SCOPES = Inl e \<longrightarrow>
      (fs w (TOKEN_FILE E) = None \<longrightarrow>
         get_drive E w =
           logged ''get_drive'' e w
             [Print ''Starting authentication process...'',
              Print (''credentials.json found at '' @ CREDENTIALS_FILE E),
              Print ''Starting OAuth flow...'',
              Flow (CREDENTIALS_FILE E) SCOPES (Inl e)]) \<and>
      (fs w (TOKEN_FILE E) = Some (Pickled c) \<and> \<not> valid c \<and>
       \<not> (expired c \<and> truthy (refresh_token c)) \<longrightarrow>
         get_drive E w =
           logged ''get_drive'' e w
             [Print ''Starting authentication process...'',
              Print (''credentials.json found at '' @ CREDENTIALS_FILE E),
              Print ''Loading existing token...'',
              Print ''Starting OAuth flow...'',
              Flow (CREDENTIALS_FILE E) SCOPES (Inl e)])"
  by (auto simp: get_drive_defs io_defs logged_def)

lemma get_drive_raises_save_failure:
  "fs w (CREDENTIALS_FILE E) \<noteq> None \<and> unwritable E (TOKEN_FILE E) = Some e \<longrightarrow>
      (fs w (TOKEN_FILE E) = Some (Pickled c) \<and> \<not> valid c \<and> expired c \<and>
       truthy (refresh_token c) \<and> refresh E c = Inr c' \<longrightarrow>
         get_drive E w =
           logged ''get_drive'' e w
             [Print ''Starting authentication process...'',
              Print (''credentials.json found at '' @ CREDENTIALS_FILE E),
              Print ''Loading existing token...'',
              Print ''Refreshing expired token...'',
              Refresh c (Inr c'),
              Print ''Saving token...'',
              OpenWb (TOKEN_FILE E) (Some e)]) \<and>
      (fs w (TOKEN_FILE E) = None \<and> oauth_flow E (CREDENTIALS_FILE E) SCOPES = Inr c' \<longrightarrow>
         get_drive E w =
           logged ''get_drive'' e w
             [Print ''Starting authentication process...'',
              Print (''credentials.json found at '' @ CREDENTIALS_FILE E),
              Print ''Starting OAuth flow...'',
              Flow (CREDENTIALS_FILE E) SCOPES (Inr c'),
              Print ''OAuth flow completed'',
              Print ''Saving token...'',
              OpenWb (TOKEN_FILE E) (Some e)]) \<and>
      (fs w (TOKEN_FILE E) = Some (Pickled c) \<and> \<not> valid c \<and>
       \<not> (expired c \<and> truthy (refresh_token c)) \<and>
       oauth_flow E (CREDENTIALS_FILE E) SCOPES = Inr c' \<longrightarrow>
         get_drive E w =
           logged ''get_drive'' e w
             [Print ''Starting authentication process...'',
              Print (''credentials.json found at '' @ CREDENTIALS_FILE E),
              Print ''Loading existing token...'',
              Print ''Starting OAuth flow...'',
              Flow (CREDENTIALS_FILE E) SCOPES (Inr c'),
              Print ''OAuth flow completed'',
              Print ''Saving token...'',
              OpenWb (TOKEN_FILE E) (Some e)])"
  by (auto simp: get_drive_defs io_defs logged_def)

lemma list_drive_files_raises:
  "get_drive E w = (Inr h, w1) \<longrightarrow>
      (let req = Request ''files.list''
                   ([(''pageSize'', PInt max_results), (''fields'', PStr LIST_FIELDS)]
                    @ (if query \<noteq> [] then [(''q'', PStr query)] else []))
       in (api E h req = Inl e \<longrightarrow>
             list_drive_files E max_results query w =
               logged ''list_drive_files'' e w1 [Execute h req (Inl e)]) \<and>
          (api E h req = Inr results \<and> py_len (dict_get results ''files'' (PList [])) = Inl e \<longrightarrow>
             list_drive_files E max_results query w =
               logged ''list_drive_files'' e w1 [Execute h req (Inr results)]))"
  by (simp add: Let_def list_drive_files_def tool_fail_defs)

lemma search_drive_files_raises:
  "get_drive E w = (Inr h, w1) \<longrightarrow>
      (let req = Request ''files.list''
                   [(''q'', PStr (''name contains '' @ [CHR 0x27] @ search_term @ [CHR 0x27])),
                    (''pageSize'', PInt max_results), (''fields'', PStr LIST_FIELDS)]
       in (api E h req = Inl e \<longrightarrow>
             search_drive_files E search_term max_results w =
               logged ''search_drive_files'' e w1 [Execute h req (Inl e)]) \<and>
          (api E h req = Inr results \<and> py_len (dict_get results ''files'' (PList [])) = Inl e \<longrightarrow>
             search_drive_files E search_term max_results w =
               logged ''search_drive_files'' e w1 [Execute h req (Inr results)]))"
  by (simp add: Let_def search_drive_files_def search_query_def tool_fail_defs)

lemma create_folder_raises:
  "get_drive E w = (Inr h, w1) \<longrightarrow>
      (let req = Request ''files.create''
                   [(''body'', PDict ([(''name'', PStr folder_name),
                                       (''mimeType'', PStr ''application/vnd.google-apps.folder'')]
                                      @ (if truthy parent_folder_id
                                         then [(''parents'', PList [PStr (the parent_folder_id)])]
                                         else []))),
                    (''fields'', PStr ''id, name, webViewLink'')]
       in api E h req = Inl e \<longrightarrow>
            create_folder E folder_name parent_folder_id w =
              logged ''create_folder'' e w1 [Execute h req (Inl e)])"
  by (simp add: Let_def create_folder_def tool_fail_defs)

lemma upload_file_raises:
  "get_drive E w = (Inr h, w1) \<longrightarrow>
      (let req = Request ''files.create''
                   [(''body'', PDict ([(''name'', PStr (if truthy file_name then the file_name
                                                        else os_path_basename file_path))]
                                      @ (if truthy parent_folder_id
                                         then [(''parents'', PList [PStr (the parent_folder_id)])]
                                         else []))),
                    (''media_body'', PMedia file_path True),
                    (''fields'', PStr ''id, name, webViewLink'')]
       in (fs w1 file_path = None \<longrightarrow>
             upload_file E file_path file_name parent_folder_id w =
               logged ''upload_file''
                 (Exn ''FileNotFoundError'' (''File not found: '' @ file_path)) w1 []) \<and>
          (fs w1 file_path \<noteq> None \<and> unreadable E file_path = Some e \<longrightarrow>
             upload_file E file_path file_name parent_folder_id w =
               logged ''upload_file'' e w1 []) \<and>
          (fs w1 file_path \<noteq> None \<and> unreadable E file_path = None \<and> api E h req = Inl e \<longrightarrow>
             upload_file E file_path file_name parent_folder_id w =
               logged ''upload_file'' e w1 [Execute h req (Inl e)]))"
  by (auto simp: Let_def upload_file_def media_file_upload_def tool_fail_defs)

lemma delete_file_raises:
  "get_drive E w = (Inr h, w1) \<longrightarrow>
      (let req = Request ''files.delete'' [(''fileId'', PStr file_id)]
       in api E h req = Inl e \<longrightarrow>
            delete_file E file_id w = logged ''delete_file'' e w1 [Execute h req (Inl e)])"
  by (simp add: Let_def delete_file_def tool_fail_defs)

lemma download_file_raises:
  "get_drive E w = (Inr h, w1) \<longrightarrow>
      (unwritable E destination_path = Some e \<longrightarrow>
         download_file E file_id destination_path w =
           logged ''download_file'' e w1 [OpenWb destination_path (Some e)]) \<and>
      (unwritable E destination_path = None \<and> chunk_error (media E h file_id) = Some e \<longrightarrow>
         download_file E file_id destination_path w =
           logged ''download_file'' e
             (w1\<lparr>fs := (fs w1)(destination_path \<mapsto> Data (chunk_bytes (media E h file_id)))\<rparr>)
             (OpenWb destination_path None # chunk_events (media E h file_id)))"
proof (intro conjI impI)
  assume g: "get_drive E w = (Inr h, w1)"
  {
    assume "unwritable E destination_path = Some e"
    from download_open_fails [OF g this, of file_id]
    show "download_file E file_id destination_path w =
           logged ''download_file'' e w1 [OpenWb destination_path (Some e)]"
      by (simp add: logged_def)
  }
  {
    assume a: "unwritable E destination_path = None \<and> chunk_error (media E h file_id) = Some e"
    then have "unwritable E destination_path = None" by simp
    from download_after_open [OF g this, of file_id] a
    show "download_file E file_id destination_path w =
           logged ''download_file'' e
             (w1\<lparr>fs := (fs w1)(destination_path \<mapsto> Data (chunk_bytes (media E h file_id)))\<rparr>)
             (OpenWb destination_path None # chunk_events (media E h file_id))"
      by (simp add: logged_def)
  }
qed

lemma rename_file_raises:
  "get_drive E w = (Inr h, w1) \<longrightarrow>
      (let req = Request ''files.update''
                   [(''fileId'', PStr file_id), (''body'', PDict [(''name'', PStr new_name)]),
                    (''fields'', PStr ''id, name, webViewLink'')]
       in api E h req = Inl e \<longrightarrow>
            rename_file E file_id new_name w = logged ''rename_file'' e w1 [Execute h req (Inl e)])"
  by (simp add: Let_def rename_file_def tool_fail_defs)

lemma move_file_raises:
  "get_drive E w = (Inr h, w1) \<longrightarrow>
      (let get = Request ''files.get'' [(''fileId'', PStr file_id), (''fields'', PStr ''parents'')];
           update = Request ''files.update''
                      [(''fileId'', PStr file_id), (''addParents'', PStr new_parent_folder_id),
                       (''removeParents'', PStr previous_parents),
                       (''fields'', PStr ''id, name, parents, webViewLink'')]
       in (api E h get = Inl e \<longrightarrow>
             move_file E file_id new_parent_folder_id w =
               logged ''move_file'' e w1 [Execute h get (Inl e)]) \<and>
          (api E h get = Inr file \<and> py_join '','' (dict_get file ''parents'' (PList [])) = Inl e \<longrightarrow>
             move_file E file_id new_parent_folder_id w =
               logged ''move_file'' e w1 [Execute h get (Inr file)]) \<and>
          (api E h get = Inr file \<and>
           py_join '','' (dict_get file ''parents'' (PList [])) = Inr previous_parents \<and>
           api E h update = Inl e \<longrightarrow>
             move_file E file_id new_parent_folder_id w =
               logged ''move_file'' e w1 [Execute h get (Inr file), Execute h update (Inl e)]))"
  by (simp add: Let_def move_file_def tool_fail_defs)

lemma get_file_info_raises:
  "get_drive E w = (Inr h, w1) \<longrightarrow>
      (let req = Request ''files.get''
                   [(''fileId'', PStr file_id),
                    (''fields'', PStr ''id, name, mimeType, size, createdTime, modifiedTime, webViewLink, owners, permissions'')]
       in api E h req = Inl e \<longrightarrow>
            get_file_info E file_id w = logged ''get_file_info'' e w1 [Execute h req (Inl e)])"
  by (simp add: Let_def get_file_info_def tool_fail_defs)

text \<open>
  Claim C7. No failure that arises during a tool invocation, or during \<^verbatim>\<open>get_drive\<close>,
  is caught and suppressed: the exception is logged on stderr and raised again, the same
  exception, and nothing is retried. The theorem says it in two ways.

  First, of the trace, for every tool invocation and for \<^verbatim>\<open>get_drive\<close>: the effects
  extend the trace; when an effect fails with \<open>e\<close> the invocation ends with \<open>e\<close> and
  only lines on stderr follow the failed effect (\<open>no_suppress\<close>); when the invocation
  ends with \<open>e\<close> its last effect is the line \<^verbatim>\<open>ERROR in <tool>: <str(e)>\<close>; when it
  returns, none of its effects failed.

  Second, point by point, for each place of the module where an exception can arise, with
  the exact result (\<open>logged\<close>: the exception, the effects up to it, then the ERROR line and
  nothing more):
  \<^item> in every tool, a failure of \<^verbatim>\<open>get_drive\<close>;
  \<^item> in \<^verbatim>\<open>get_drive\<close>: the missing client secret, a token file that does not load,
    a failed refresh, a failed interactive authorization, a token file that cannot be
    written;
  \<^item> in the tools, once the handle is acquired: a failed request of each tool (both
    requests of \<^verbatim>\<open>move_file\<close>), the TypeError of \<^verbatim>\<open>len(files)\<close> in the list and
    the search tool and of \<^verbatim>\<open>",".join(...)\<close> in \<^verbatim>\<open>move_file\<close>, the missing and
    the unreadable local file of \<^verbatim>\<open>upload_file\<close>, the destination that cannot be
    opened and the failed chunk fetch of \<^verbatim>\<open>download_file\<close>.
  Exceptions are Python's \<^verbatim>\<open>Exception\<close> instances, the ones
  \<^verbatim>\<open>except Exception\<close> catches.
\<close>

theorem failures_logged_and_reraised:
  "(\<exists>evs. trace (snd (run E t w)) = trace w @ evs \<and>
         no_suppress (err (fst (run E t w))) evs \<and>
         (case fst (run E t w) of
            Inl e \<Rightarrow> evs \<noteq> [] \<and> last evs = Print (''ERROR in '' @ tool_name t @ '': '' @ str e)
          | Inr v \<Rightarrow> list_all (\<lambda>ev. failure ev = None) evs)) \<and>
   (\<exists>evs. trace (snd (get_drive E w)) = trace w @ evs \<and>
         no_suppress (err (fst (get_drive E w))) evs \<and>
         (case fst (get_drive E w) of
            Inl e \<Rightarrow> evs \<noteq> [] \<and> last evs = Print (''ERROR in get_drive: '' @ str e)
          | Inr h \<Rightarrow> list_all (\<lambda>ev. failure ev = None) evs)) \<and>
   (get_drive E w = (Inl e, w1) \<longrightarrow> run E t w = logged (tool_name t) e w1 []) \<and>
   (fs w (CREDENTIALS_FILE E) = None \<longrightarrow>
      get_drive E w =
        logged ''get_drive''
          (Exn ''FileNotFoundError'' (''credentials.json not found at '' @ CREDENTIALS_FILE E)) w
          [Print ''Starting authentication process...'',
           Print (''ERROR: credentials.json not found at '' @ CREDENTIALS_FILE E @ ''!'')]) \<and>
   (fs w (CREDENTIALS_FILE E) \<noteq> None \<and> fs w (TOKEN_FILE E) = Some (Data d) \<longrightarrow>
      get_drive E w =
        logged ''get_drive'' (Exn ''UnpicklingError'' ''could not load the pickle'') w
          [Print ''Starting authentication process...'',
           Print (''credentials.json found at '' @ CREDENTIALS_FILE E),
           Print ''Loading existing token...'']) \<and>
   (fs w (CREDENTIALS_FILE E) \<noteq> None \<and> fs w (TOKEN_FILE E) = Some (Pickled c) \<and>
    \<not> valid c \<and> expired c \<and> truthy (refresh_token c) \<and> refresh E c = Inl e \<longrightarrow>
      get_drive E w =
        logged ''get_drive'' e w
          [Print ''Starting authentication process...'',
           Print (''credentials.json found at '' @ CREDENTIALS_FILE E),
           Print ''Loading existing token...'',
           Print ''Refreshing expired token...'',
           Refresh c (Inl e)]) \<and>
   (fs w (CREDENTIALS_FILE E) \<noteq> None \<and> oauth_flow E (CREDENTIALS_FILE E) SCOPES = Inl e \<longrightarrow>
      (fs w (TOKEN_FILE E) = None \<longrightarrow>
         get_drive E w =
           logged ''get_drive'' e w
             [Print ''Starting authentication process...'',
              Print (''credentials.json found at '' @ CREDENTIALS_FILE E),
              Print ''Starting OAuth flow...'',
              Flow (CREDENTIALS_FILE E) SCOPES (Inl e)]) \<and>
      (fs w (TOKEN_FILE E) = Some (Pickled c) \<and> \<not> valid c \<and>
       \<not> (expired c \<and> truthy (refresh_token c)) \<longrightarrow>
         get_drive E w =
           logged ''get_drive'' e w
             [Print ''Starting authentication process...'',
              Print (''credentials.json found at '' @ CREDENTIALS_FILE E),
              Print ''Loading existing token...'',
              Print ''Starting OAuth flow...'',
              Flow (CREDENTIALS_FILE E) SCOPES (Inl e)])) \<and>
   (fs w (CREDENTIALS_FILE E) \<noteq> None \<and> unwritable E (TOKEN_FILE E) = Some e \<longrightarrow>
      (fs w (TOKEN_FILE E) = Some (Pickled c) \<and> \<not> valid c \<and> expired c \<and>
       truthy (refresh_token c) \<and> refresh E c = Inr c' \<longrightarrow>
         get_drive E w =
           logged ''get_drive'' e w
             [Print ''Starting authentication process...'',
              Print (''credentials.json found at '' @ CREDENTIALS_FILE E),
              Print ''Loading existing token...'',
              Print ''Refreshing expired token...'',
              Refresh c (Inr c'),
              Print ''Saving token...'',
              OpenWb (TOKEN_FILE E) (Some e)]) \<and>
      (fs w (TOKEN_FILE E) = None \<and> oauth_flow E (CREDENTIALS_FILE E) SCOPES = Inr c' \<longrightarrow>
         get_drive E w =
           logged ''get_drive'' e w
             [Print ''Starting authentication process...'',
              Print (''credentials.json found at '' @ CREDENTIALS_FILE E),
              Print ''Starting OAuth flow...'',
              Flow (CREDENTIALS_FILE E) SCOPES (Inr c'),
              Print ''OAuth flow completed'',
              Print ''Saving token...'',
              OpenWb (TOKEN_FILE E) (Some e)]) \<and>
      (fs w (TOKEN_FILE E) = Some (Pickled c) \<and> \<not> valid c \<and>
       \<not> (expired c \<and> truthy (refresh_token c)) \<and>
       oauth_flow E (CREDENTIALS_FILE E) SCOPES = Inr c' \<longrightarrow>
         get_drive E w =
           logged ''get_drive'' e w
             [Print ''Starting authentication process...'',
              Print (''credentials.json found at '' @ CREDENTIALS_FILE E),
              Print ''Loading existing token...'',
              Print ''Starting OAuth flow...'',
              Flow (CREDENTIALS_FILE E) SCOPES (Inr c'),
              Print ''OAuth flow completed'',
              Print ''Saving token...'',
              OpenWb (TOKEN_FILE E) (Some e)])) \<and>
   (get_drive E w = (Inr h, w1) \<longrightarrow>
      (let req = Request ''files.list''
                   ([(''pageSize'', PInt max_results), (''fields'', PStr LIST_FIELDS)]
                    @ (if query \<noteq> [] then [(''q'', PStr query)] else []))
       in (api E h req = Inl e \<longrightarrow>
             list_drive_files E max_results query w =
               logged ''list_drive_files'' e w1 [Execute h req (Inl e)]) \<and>
          (api E h req = Inr results \<and> py_len (dict_get results ''files'' (PList [])) = Inl e \<longrightarrow>
             list_drive_files E max_results query w =
               logged ''list_drive_files'' e w1 [Execute h req (Inr results)]))) \<and>
   (get_drive E w = (Inr h, w1) \<longrightarrow>
      (let req = Request ''files.list''
                   [(''q'', PStr (''name contains '' @ [CHR 0x27] @ search_term @ [CHR 0x27])),
                    (''pageSize'', PInt max_results), (''fields'', PStr LIST_FIELDS)]
       in (api E h req = Inl e \<longrightarrow>
             search_drive_files E search_term max_results w =
               logged ''search_drive_files'' e w1 [Execute h req (Inl e)]) \<and>
          (api E h req = Inr results \<and> py_len (dict_get results ''files'' (PList [])) = Inl e \<longrightarrow>
             search_drive_files E search_term max_results w =
               logged ''search_drive_files'' e w1 [Execute h req (Inr results)]))) \<and>
   (get_drive E w = (Inr h, w1) \<longrightarrow>
      (let req = Request ''files.create''
                   [(''body'', PDict ([(''name'', PStr folder_name),
                                       (''mimeType'', PStr ''application/vnd.google-apps.folder'')]
                                      @ (if truthy parent_folder_id
                                         then [(''parents'', PList [PStr (the parent_folder_id)])]
                                         else []))),
                    (''fields'', PStr ''id, name, webViewLink'')]
       in api E h req = Inl e \<longrightarrow>
            create_folder E folder_name parent_folder_id w =
              logged ''create_folder'' e w1 [Execute h req (Inl e)])) \<and>
   (get_drive E w = (Inr h, w1) \<longrightarrow>
      (let req = Request ''files.create''
                   [(''body'', PDict ([(''name'', PStr (if truthy file_name then the file_name
                                                        else os_path_basename file_path))]
                                      @ (if truthy parent_folder_id
                                         then [(''parents'', PList [PStr (the parent_folder_id)])]
                                         else []))),
                    (''media_body'', PMedia file_path True),
                    (''fields'', PStr ''id, name, webViewLink'')]
       in (fs w1 file_path = None \<longrightarrow>
             upload_file E file_path file_name parent_folder_id w =
               logged ''upload_file''
                 (Exn ''FileNotFoundError'' (''File not found: '' @ file_path)) w1 []) \<and>
          (fs w1 file_path \<noteq> None \<and> unreadable E file_path = Some e \<longrightarrow>
             upload_file E file_path file_name parent_folder_id w =
               logged ''upload_file'' e w1 []) \<and>
          (fs w1 file_path \<noteq> None \<and> unreadable E file_path = None \<and> api E h req = Inl e \<longrightarrow>
             upload_file E file_path file_name parent_folder_id w =
               logged ''upload_file'' e w1 [Execute h req (Inl e)]))) \<and>
   (get_drive E w = (Inr h, w1) \<longrightarrow>
      (let req = Request ''files.delete'' [(''fileId'', PStr file_id)]
       in api E h req = Inl e \<longrightarrow>
            delete_file E file_id w = logged ''delete_file'' e w1 [Execute h req (Inl e)])) \<and>
   (get_drive E w = (Inr h, w1) \<longrightarrow>
      (unwritable E destination_path = Some e \<longrightarrow>
         download_file E file_id destination_path w =
           logged ''download_file'' e w1 [OpenWb destination_path (Some e)]) \<and>
      (unwritable E destination_path = None \<and> chunk_error (media E h file_id) = Some e \<longrightarrow>
         download_file E file_id destination_path w =
           logged ''download_file'' e
             (w1\<lparr>fs := (fs w1)(destination_path \<mapsto> Data (chunk_bytes (media E h file_id)))\<rparr>)
             (OpenWb destination_path None # chunk_events (media E h file_id)))) \<and>
   (get_drive E w = (Inr h, w1) \<longrightarrow>
      (let req = Request ''files.update''
                   [(''fileId'', PStr file_id), (''body'', PDict [(''name'', PStr new_name)]),
                    (''fields'', PStr ''id, name, webViewLink'')]
       in api E h req = Inl e \<longrightarrow>
            rename_file E file_id new_name w = logged ''rename_file'' e w1 [Execute h req (Inl e)])) \<and>
   (get_drive E w = (Inr h, w1) \<longrightarrow>
      (let get = Request ''files.get'' [(''fileId'', PStr file_id), (''fields'', PStr ''parents'')];
           update = Request ''files.update''
                      [(''fileId'', PStr file_id), (''addParents'', PStr new_parent_folder_id),
                       (''removeParents'', PStr previous_parents),
                       (''fields'', PStr ''id, name, parents, webViewLink'')]
       in (api E h get = Inl e \<longrightarrow>
             move_file E file_id new_parent_folder_id w =
               logged ''move_file'' e w1 [Execute h get (Inl e)]) \<and>
          (api E h get = Inr file \<and> py_join '','' (dict_get file ''parents'' (PList [])) = Inl e \<longrightarrow>
             move_file E file_id new_parent_folder_id w =
               logged ''move_file'' e w1 [Execute h get (Inr file)]) \<and>
          (api E h get = Inr file \<and>
           py_join '','' (dict_get file ''parents'' (PList [])) = Inr previous_parents \<and>
           api E h update = Inl e \<longrightarrow>
             move_file E file_id new_parent_folder_id w =
               logged ''move_file'' e w1 [Execute h get (Inr file), Execute h update (Inl e)]))) \<and>
   (get_drive E w = (Inr h, w1) \<longrightarrow>
      (let req = Request ''files.get''
                   [(''fileId'', PStr file_id),
                    (''fields'', PStr ''id, name, mimeType, size, createdTime, modifiedTime, webViewLink, owners, permissions'')]
       in api E h req = Inl e \<longrightarrow>
            get_file_info E file_id w = logged ''get_file_info'' e w1 [Execute h req (Inl e)]))"
  by (intro conjI) (rule run_keeps_discipline get_drive_keeps_discipline tools_raise_acquisition_failure get_drive_raises_missing_secret get_drive_raises_load_failure get_drive_raises_refresh_failure get_drive_raises_flow_failure get_drive_raises_save_failure list_drive_files_raises search_drive_files_raises create_folder_raises upload_file_raises delete_file_raises download_file_raises rename_file_raises move_file_raises get_file_info_raises)+

theorem failures_logged_and_reraised_witness:
  "get_drive E_refresh_fails w_expired =
     (Inl (Exn ''RefreshError'' ''invalid_grant''), snd (get_drive E_refresh_fails w_expired)) \<and>
   run E_refresh_fails (DeleteFile ''f1'') w_expired =
     logged ''delete_file'' (Exn ''RefreshError'' ''invalid_grant'')
       (snd (get_drive E_refresh_fails w_expired)) [] \<and>
   trace (snd (run E_refresh_fails (DeleteFile ''f1'') w_expired)) =
     [Print ''Starting authentication process...'',
      Print ''credentials.json found at /app/credentials.json'',
      Print ''Loading existing token...'',
      Print ''Refreshing expired token...'',
      Refresh c_expired (Inl (Exn ''RefreshError'' ''invalid_grant'')),
      Print ''ERROR in get_drive: invalid_grant'',
      Print ''ERROR in delete_file: invalid_grant''] \<and>
   get_drive E_bad_files w_valid =
     (Inr (Service ''drive'' ''v3'' c_valid), snd (get_drive E_bad_files w_valid)) \<and>
   api E_bad_files (Service ''drive'' ''v3'' c_valid)
     (Request ''files.list'' [(''pageSize'', PInt 10), (''fields'', PStr LIST_FIELDS)]) =
     Inr [(''files'', PInt 3)] \<and>
   py_len (dict_get [(''files'', PInt 3)] ''files'' (PList [])) =
     Inl (Exn ''TypeError'' ''object has no len()'') \<and>
   list_drive_files E_bad_files 10 '''' w_valid =
     logged ''list_drive_files'' (Exn ''TypeError'' ''object has no len()'')
       (snd (get_drive E_bad_files w_valid))
       [Execute (Service ''drive'' ''v3'' c_valid)
          (Request ''files.list'' [(''pageSize'', PInt 10), (''fields'', PStr LIST_FIELDS)])
          (Inr [(''files'', PInt 3)])] \<and>
   fst (list_drive_files E_bad_files 10 '''' w_valid) =
     Inl (Exn ''TypeError'' ''object has no len()'')"
proof -
  have 1: "get_drive E_refresh_fails w_expired =
     (Inl (Exn ''RefreshError'' ''invalid_grant''), snd (get_drive E_refresh_fails w_expired))"
    by (simp add: get_drive_defs io_defs fixture_defs)
  have 2: "get_drive E_bad_files w_valid =
     (Inr (Service ''drive'' ''v3'' c_valid), snd (get_drive E_bad_files w_valid))"
    by (simp add: get_drive_defs io_defs fixture_defs E_bad_files_def)
  have 3: "api E_bad_files (Service ''drive'' ''v3'' c_valid)
     (Request ''files.list'' [(''pageSize'', PInt 10), (''fields'', PStr LIST_FIELDS)]) =
     Inr [(''files'', PInt 3)]"
    by (simp add: E_bad_files_def E0_def)
  have 4: "py_len (dict_get [(''files'', PInt 3)] ''files'' (PList [])) =
     Inl (Exn ''TypeError'' ''object has no len()'')"
    by (simp add: dict_get_def)
  note T = failures_logged_and_reraised [where E = E_refresh_fails and w = w_expired
      and t = "DeleteFile ''f1''" and e = "Exn ''RefreshError'' ''invalid_grant''"
      and ?w1.0 = "snd (get_drive E_refresh_fails w_expired)"]
  note U = failures_logged_and_reraised [where E = E_bad_files and w = w_valid
      and h = "Service ''drive'' ''v3'' c_valid" and ?w1.0 = "snd (get_drive E_bad_files w_valid)"
      and max_results = 10 and query = "''''" and results = "[(''files'', PInt 3)]"
      and e = "Exn ''TypeError'' ''object has no len()''"]
  from T [THEN conjunct2, THEN conjunct2, THEN conjunct1] 1
  have 5: "run E_refresh_fails (DeleteFile ''f1'') w_expired =
     logged ''delete_file'' (Exn ''RefreshError'' ''invalid_grant'')
       (snd (get_drive E_refresh_fails w_expired)) []"
    by simp
  from U [THEN conjunct2, THEN conjunct2, THEN conjunct2, THEN conjunct2, THEN conjunct2,
      THEN conjunct2, THEN conjunct2, THEN conjunct2, THEN conjunct1] 2 3 4
  have 6: "list_drive_files E_bad_files 10 '''' w_valid =
     logged ''list_drive_files'' (Exn ''TypeError'' ''object has no len()'')
       (snd (get_drive E_bad_files w_valid))
       [Execute (Service ''drive'' ''v3'' c_valid)
          (Request ''files.list'' [(''pageSize'', PInt 10), (''fields'', PStr LIST_FIELDS)])
          (Inr [(''files'', PInt 3)])]"
    by (simp add: Let_def)
  have 7: "trace (snd (run E_refresh_fails (DeleteFile ''f1'') w_expired)) =
     [Print ''Starting authentication process...'',
      Print ''credentials.json found at /app/credentials.json'',
      Print ''Loading existing token...'',
      Print ''Refreshing expired token...'',
      Refresh c_expired (Inl (Exn ''RefreshError'' ''invalid_grant'')),
      Print ''ERROR in get_drive: invalid_grant'',
      Print ''ERROR in delete_file: invalid_grant'']"
    unfolding 5 by (simp add: logged_def get_drive_defs io_defs fixture_defs)
  have 8: "fst (list_drive_files E_bad_files 10 '''' w_valid) =
     Inl (Exn ''TypeError'' ''object has no len()'')"
    unfolding 6 by (simp add: logged_def)
  from 1 2 3 4 5 6 7 8 show ?thesis by blast
qed

end
